theory Spec2Isabelle
  imports Complex_Main
begin

section \<open>Data model\<close>

text \<open>
  A cell of a pandas DataFrame as \<^verbatim>\<open>pd.read_csv\<close> returns it: missing (NaN / pd.NA), a
  number, or a string. Numbers are rationals here: the properties below depend on
  whether a value is missing, on its sign and on counting rows, never on rounding.
  Strings are byte strings (UTF-8), so the em dash of the ecosystem names is three bytes.
\<close>

datatype cell = Null | Num rat | Str string

type_synonym row = "(string \<times> cell) list"

record table =
  columns :: "string list"
  rows :: "row list"

datatype error = TypeError string | AttributeError string | KeyError string | OSError string

datatype 'a outcome = Returned 'a | Raised error

datatype level = INFO | WARNING | ERROR

datatype arg = AInt int | ARat rat | ABool bool | AStr string | ACells "cell list" | AStrs "string list" | AErr error

text \<open>A log record: the level, the message with \<^verbatim>\<open>{}\<close> for each formatted value, the values.\<close>

type_synonym log_record = "level \<times> string \<times> arg list"

record date_range =
  min_year :: int
  max_year :: int

text \<open>
  The summary dictionaries. \<open>summary\<close> holds the keys the orchestrator reads from both
  cleaners; \<open>commercial_summary\<close> adds the other keys of
  \<^verbatim>\<open>CommercialDataCleaner.generate_summary_statistics\<close>.
\<close>

record summary =
  raw_row_count :: nat
  cleaned_row_count :: nat
  rows_removed :: int
  date_range :: date_range
  total_exchange_value :: rat

record commercial_summary = summary +
  data_type :: string
  processing_timestamp :: string
  unique_counties :: "cell list"
  unique_species_groups :: "cell list"
  unique_ecosystem_types :: "cell list"
  unique_area_ids :: "int list"
  records_by_year :: "(int \<times> nat) list"
  total_value_by_year :: "(int \<times> rat) list"

text \<open>
  Modelled from the spec: the summary of \<^verbatim>\<open>NonCommercialDataCleaner\<close>, whose module
  (clean_noncommercial) is not among the sources. The spec gives it the same summary
  record; pipeline.py reads the keys of \<open>summary\<close> and \<^verbatim>\<open>unique_islands\<close> from it.
\<close>

record noncommercial_summary = summary +
  unique_islands :: "cell list"

record overall =
  total_records :: nat
  total_exchange_value :: rat
  combined_date_range :: date_range

text \<open>
  The dictionary built by \<^verbatim>\<open>generate_combined_summary\<close>. The keys \<^verbatim>\<open>commercial\<close> and
  \<^verbatim>\<open>non_commercial\<close> are always set (\<open>None\<close> is JSON null); the key \<^verbatim>\<open>overall\<close> is
  set only in one branch (\<open>None\<close> is an absent key).
\<close>

record combined_summary =
  pipeline_timestamp :: string
  commercial :: "commercial_summary option"
  non_commercial :: "noncommercial_summary option"
  overall :: "overall option"

datatype content = Csv table | Json combined_summary | LogFile

text \<open>
  What the process shares: the records sent to \<^verbatim>\<open>logging\<close>, in order, the files
  written so far, by path, and the lines printed.
\<close>

record world =
  logged :: "log_record list"
  files :: "string \<rightharpoonup> content"
  stdout :: "string list"

text \<open>
  What the program reads from outside: the names in a directory in the order the scan
  returns them, \<^verbatim>\<open>pd.read_csv\<close> on a path, the string parser of \<^verbatim>\<open>pd.to_numeric\<close>
  (\<open>None\<close> where it coerces to NaN), the clock and the working directory.
\<close>

record env =
  listdir :: "string \<Rightarrow> error + string list"
  read_csv :: "string \<Rightarrow> error + table"
  to_numeric_str :: "string \<Rightarrow> rat option"
  strftime :: "string \<Rightarrow> string"
  isoformat :: string
  cwd :: string

record cleaner =
  input_dir :: string
  output_dir :: string
  data :: "table option"
  raw_row_count :: nat
  cleaned_row_count :: nat

type_synonym cstate = "cleaner \<times> world"

section \<open>Library operations\<close>

definition info :: "string \<Rightarrow> arg list \<Rightarrow> world \<Rightarrow> world" where
  "info m as w = w\<lparr>logged := logged w @ [(INFO, m, as)]\<rparr>"

definition warning :: "string \<Rightarrow> arg list \<Rightarrow> world \<Rightarrow> world" where
  "warning m as w = w\<lparr>logged := logged w @ [(WARNING, m, as)]\<rparr>"

definition log_error :: "string \<Rightarrow> arg list \<Rightarrow> world \<Rightarrow> world" where
  "log_error m as w = w\<lparr>logged := logged w @ [(ERROR, m, as)]\<rparr>"

definition path_join :: "string \<Rightarrow> string \<Rightarrow> string" where
  "path_join d n = d @ ''/'' @ n"

text \<open>
  \<^verbatim>\<open>fnmatch\<close> of a name against a pattern, for patterns made of literal characters and
  \<^verbatim>\<open>*\<close> (the only ones the program uses).
\<close>

fun fnmatch :: "string \<Rightarrow> string \<Rightarrow> bool" where
  "fnmatch [] [] = True"
| "fnmatch (x # xs) [] = False"
| "fnmatch [] (p # ps) = (p = CHR ''*'' \<and> fnmatch [] ps)"
| "fnmatch (x # xs) (p # ps) =
     (if p = CHR ''*'' then fnmatch (x # xs) ps \<or> fnmatch xs (p # ps)
      else x = p \<and> fnmatch xs ps)"

definition glob :: "env \<Rightarrow> string \<Rightarrow> string \<Rightarrow> error + string list" where
  "glob ev d pat =
     (case listdir ev d of Inl e \<Rightarrow> Inl e | Inr ns \<Rightarrow> Inr (filter (\<lambda>n. fnmatch n pat) ns))"

definition startswith :: "string \<Rightarrow> string \<Rightarrow> bool" where
  "startswith s p = (take (length p) s = p)"

text \<open>Python's \<^verbatim>\<open>sub in s\<close> on strings.\<close>

fun contains :: "string \<Rightarrow> string \<Rightarrow> bool" where
  "contains [] sub = (sub = [])"
| "contains (x # xs) sub = (startswith (x # xs) sub \<or> contains xs sub)"

definition cell_of :: "row \<Rightarrow> string \<Rightarrow> cell" where
  "cell_of r c = (case map_of r c of Some v \<Rightarrow> v | None \<Rightarrow> Null)"

text \<open>\<^verbatim>\<open>df[c]\<close>: the cells of column \<open>c\<close>, one per row.\<close>

definition column :: "table \<Rightarrow> string \<Rightarrow> cell list" where
  "column t c = map (\<lambda>r. cell_of r c) (rows t)"

fun set_cell :: "string \<Rightarrow> cell \<Rightarrow> row \<Rightarrow> row" where
  "set_cell c v [] = [(c, v)]"
| "set_cell c v ((k, x) # r) = (if k = c then (k, v) # r else (k, x) # set_cell c v r)"

text \<open>\<^verbatim>\<open>df[c] = series\<close>, for a series with one value per row.\<close>

definition assign :: "string \<Rightarrow> cell list \<Rightarrow> table \<Rightarrow> table" where
  "assign c vs t =
     \<lparr>columns = (if c \<in> set (columns t) then columns t else columns t @ [c]),
      rows = map (\<lambda>(r, v). set_cell c v r) (zip (rows t) vs)\<rparr>"

text \<open>\<^verbatim>\<open>pd.to_numeric(series, errors='coerce')\<close>, cell by cell.\<close>

definition to_numeric :: "env \<Rightarrow> cell \<Rightarrow> cell" where
  "to_numeric ev x =
     (case x of Null \<Rightarrow> Null | Num q \<Rightarrow> Num q
      | Str s \<Rightarrow> (case to_numeric_str ev s of None \<Rightarrow> Null | Some q \<Rightarrow> Num q))"

text \<open>
  A cell that \<^verbatim>\<open>Int64\<close> can hold: a missing value, or a whole number from \<open>-2^63\<close> to
  \<open>2^63 - 1\<close>.
\<close>

definition fits_Int64 :: "cell \<Rightarrow> bool" where
  "fits_Int64 x =
     (case x of Num q \<Rightarrow> of_int \<lfloor>q\<rfloor> = q \<and> - (2 ^ 63) \<le> q \<and> q < 2 ^ 63 | _ \<Rightarrow> True)"

text \<open>
  \<^verbatim>\<open>series.astype('Int64')\<close> after \<^verbatim>\<open>to_numeric\<close>: pandas refuses a number that is not
  whole or that int64 cannot hold; the other numbers and the missing values are kept.
\<close>

definition astype_Int64 :: "cell list \<Rightarrow> error + cell list" where
  "astype_Int64 xs =
     (if list_all fits_Int64 xs then Inr xs
      else Inl (TypeError ''cannot safely cast non-equivalent float64 to int64''))"

text \<open>\<^verbatim>\<open>series.unique()\<close>: the distinct values in order of first appearance.\<close>

primrec unique_acc :: "'a list \<Rightarrow> 'a list \<Rightarrow> 'a list" where
  "unique_acc seen [] = rev seen"
| "unique_acc seen (x # xs) = (if x \<in> set seen then unique_acc seen xs else unique_acc (x # seen) xs)"

definition unique :: "'a list \<Rightarrow> 'a list" where
  "unique xs = unique_acc [] xs"

text \<open>Python's \<^verbatim>\<open><\<close> on strings: by code point, which is the order of the UTF-8 bytes.\<close>

fun str_lt :: "string \<Rightarrow> string \<Rightarrow> bool" where
  "str_lt [] [] = False"
| "str_lt [] (y # ys) = True"
| "str_lt (x # xs) [] = False"
| "str_lt (x # xs) (y # ys) = (if x = y then str_lt xs ys else (of_char x :: nat) < of_char y)"

text \<open>
  Python's \<^verbatim>\<open><\<close> on the values of a column: a string against a number or NaN raises,
  NaN is not less than anything and nothing is less than NaN.
\<close>

fun py_lt :: "cell \<Rightarrow> cell \<Rightarrow> error + bool" where
  "py_lt (Str a) (Str b) = Inr (str_lt a b)"
| "py_lt (Num a) (Num b) = Inr (a < b)"
| "py_lt (Str a) y = Inl (TypeError ''< not supported between str and float'')"
| "py_lt x (Str b) = Inl (TypeError ''< not supported between float and str'')"
| "py_lt x y = Inr False"

text \<open>
  \<^verbatim>\<open>sorted(values)\<close> as an insertion sort with \<open>py_lt\<close>; it raises when a comparison does.
  On values that \<^verbatim>\<open><\<close> orders totally (strings, or numbers without NaN) every stable
  sort returns this list.
\<close>

fun py_insert :: "cell \<Rightarrow> cell list \<Rightarrow> error + cell list" where
  "py_insert x [] = Inr [x]"
| "py_insert x (y # ys) =
     (case py_lt x y of Inl e \<Rightarrow> Inl e
      | Inr True \<Rightarrow> Inr (x # y # ys)
      | Inr False \<Rightarrow> (case py_insert x ys of Inl e \<Rightarrow> Inl e | Inr zs \<Rightarrow> Inr (y # zs)))"

fun py_sorted :: "cell list \<Rightarrow> error + cell list" where
  "py_sorted [] = Inr []"
| "py_sorted (x # xs) = (case py_sorted xs of Inl e \<Rightarrow> Inl e | Inr ys \<Rightarrow> py_insert x ys)"

text \<open>The numbers of a column, missing values skipped (\<^verbatim>\<open>skipna\<close>).\<close>

definition numbers :: "cell list \<Rightarrow> rat list" where
  "numbers xs = concat (map (\<lambda>x. case x of Num q \<Rightarrow> [q] | _ \<Rightarrow> []) xs)"

definition has_str :: "cell list \<Rightarrow> bool" where
  "has_str xs = list_ex (\<lambda>x. case x of Str s \<Rightarrow> True | _ \<Rightarrow> False) xs"

text \<open>Sequencing of calls that may raise: the first exception ends the sequence.\<close>

definition bind :: "('s \<Rightarrow> 'a outcome \<times> 's) \<Rightarrow> ('a \<Rightarrow> 's \<Rightarrow> 'b outcome \<times> 's) \<Rightarrow> 's \<Rightarrow> 'b outcome \<times> 's" where
  "bind m f s = (case m s of (Raised e, s') \<Rightarrow> (Raised e, s') | (Returned x, s') \<Rightarrow> f x s')"

definition ret :: "'a \<Rightarrow> 's \<Rightarrow> 'a outcome \<times> 's" where
  "ret x s = (Returned x, s)"

definition logging :: "(world \<Rightarrow> world) \<Rightarrow> 'a \<times> world \<Rightarrow> unit outcome \<times> 'a \<times> world" where
  "logging f = (\<lambda>(c, w). (Returned (), c, f w))"

definition lift :: "error + 'a \<Rightarrow> 's \<Rightarrow> 'a outcome \<times> 's" where
  "lift r s = (case r of Inl e \<Rightarrow> (Raised e, s) | Inr x \<Rightarrow> (Returned x, s))"

text \<open>Reading \<^verbatim>\<open>self.data\<close> for an operation that raises \<open>e\<close> on \<^verbatim>\<open>None\<close>.\<close>

definition get_data :: "error \<Rightarrow> cstate \<Rightarrow> table outcome \<times> cstate" where
  "get_data e = (\<lambda>(c, w). case data c of None \<Rightarrow> (Raised e, c, w) | Some t \<Rightarrow> (Returned t, c, w))"

definition get_self :: "'a \<times> world \<Rightarrow> 'a outcome \<times> 'a \<times> world" where
  "get_self = (\<lambda>(c, w). (Returned c, c, w))"

definition put_data :: "table \<Rightarrow> cstate \<Rightarrow> unit outcome \<times> cstate" where
  "put_data t = (\<lambda>(c, w). (Returned (), c\<lparr>data := Some t\<rparr>, w))"

definition not_subscriptable :: error where
  "not_subscriptable = TypeError ''NoneType object is not subscriptable''"

definition no_len :: error where
  "no_len = TypeError ''object of type NoneType has no len()''"

text \<open>\<^verbatim>\<open>self.data[c]\<close>: raises on \<^verbatim>\<open>None\<close> and on a column the table does not have.\<close>

definition getcol :: "string \<Rightarrow> cstate \<Rightarrow> cell list outcome \<times> cstate" where
  "getcol c =
     bind (get_data not_subscriptable)
       (\<lambda>t. if c \<in> set (columns t) then ret (column t c) else lift (Inl (KeyError c)))"

text \<open>
  A column used as numbers (compared with a number, summed, reduced by min or max).
  After \<open>validate_data_types\<close> the three numeric columns hold numbers and missing values
  only; on a column that still holds a string the model raises, as a comparison of a
  string with a number does.
\<close>

definition num_series :: "string \<Rightarrow> cstate \<Rightarrow> cell list outcome \<times> cstate" where
  "num_series c =
     bind (getcol c)
       (\<lambda>xs. if has_str xs then lift (Inl (TypeError ''not supported between str and int''))
             else ret xs)"

text \<open>\<^verbatim>\<open>df[mask]\<close> for a mask computed row by row.\<close>

definition select :: "(row \<Rightarrow> bool) \<Rightarrow> table \<Rightarrow> table" where
  "select P t = t\<lparr>rows := filter P (rows t)\<rparr>"

definition drop_columns :: "string list \<Rightarrow> table \<Rightarrow> table" where
  "drop_columns cs t =
     \<lparr>columns = filter (\<lambda>c. c \<notin> set cs) (columns t),
      rows = map (filter (\<lambda>(k, v). k \<notin> set cs)) (rows t)\<rparr>"

definition lt_num :: "cell \<Rightarrow> rat \<Rightarrow> bool" where
  "lt_num x k = (case x of Num q \<Rightarrow> q < k | _ \<Rightarrow> False)"

definition gt_num :: "cell \<Rightarrow> rat \<Rightarrow> bool" where
  "gt_num x k = (case x of Num q \<Rightarrow> k < q | _ \<Rightarrow> False)"

definition em_dash :: string where
  "em_dash = [CHR 0xE2, CHR 0x80, CHR 0x94]"

section \<open>CommercialDataCleaner (clean_commercial.py)\<close>

definition CommercialDataCleaner :: "string \<Rightarrow> string \<Rightarrow> cleaner" where
  "CommercialDataCleaner idir odir =
     \<lparr>input_dir = idir, output_dir = odir, data = None,
      cleaner.raw_row_count = 0, cleaner.cleaned_row_count = 0\<rparr>"

definition load_failed :: "error \<Rightarrow> cstate \<Rightarrow> bool outcome \<times> cstate" where
  "load_failed e = (\<lambda>(c, w).
     (Returned False, c, log_error ''Error loading commercial data: {}'' [AErr e] w))"

text \<open>
  The whole body is inside \<^verbatim>\<open>try ... except Exception\<close>: an error of the directory scan
  or of \<^verbatim>\<open>pd.read_csv\<close> is logged and becomes the return value \<open>False\<close>.
\<close>

definition load_data :: "env \<Rightarrow> cstate \<Rightarrow> bool outcome \<times> cstate" where
  "load_data ev = (\<lambda>(c, w0).
     let w = info ''Loading commercial fisheries data...'' [] w0 in
     case glob ev (input_dir c) ''*tidied_comm_ev*.csv'' of
       Inl e \<Rightarrow> load_failed e (c, w)
     | Inr fs1 \<Rightarrow>
        (case (if fs1 = []
               then (case glob ev (input_dir c) ''*comm_ev*.csv'' of
                       Inl e \<Rightarrow> Inl e
                     | Inr fs2 \<Rightarrow> Inr (filter (\<lambda>n. \<not> contains n ''noncomm'') fs2))
               else Inr fs1) of
           Inl e \<Rightarrow> load_failed e (c, w)
         | Inr [] \<Rightarrow>
             (Returned False, c,
              log_error ''No commercial data file found in {}'' [AStr (input_dir c)] w)
         | Inr (f # fs) \<Rightarrow>
            (case read_csv ev (path_join (input_dir c) f) of
               Inl e \<Rightarrow> load_failed e (c, w)
             | Inr t \<Rightarrow>
                 (Returned True,
                  c\<lparr>data := Some t, cleaner.raw_row_count := length (rows t)\<rparr>,
                  info ''Loaded {:,} rows from {}'' [AInt (int (length (rows t))), AStr f] w))))"

definition required_columns :: "string list" where
  "required_columns =
     [''year'', ''area_id'', ''county'', ''species_group'', ''ecosystem_type'', ''exchange_value'']"

definition optional_columns :: "string list" where
  "optional_columns = [''county_olelo'', ''exchange_value_formatted'']"

definition validate_schema :: "cstate \<Rightarrow> bool outcome \<times> cstate" where
  "validate_schema =
     bind (logging (info ''Validating data schema...'' []))
       (\<lambda>_. bind (get_data (AttributeError ''NoneType object has no attribute columns''))
         (\<lambda>t. let missing_required = filter (\<lambda>col. col \<notin> set (columns t)) required_columns in
           if missing_required \<noteq> []
           then bind (logging (log_error ''Missing required columns: {}'' [AStrs missing_required]))
                  (\<lambda>_. ret False)
           else let present_optional = filter (\<lambda>col. col \<in> set (columns t)) optional_columns in
             bind (if present_optional \<noteq> []
                   then logging (info ''Optional columns present: {}'' [AStrs present_optional])
                   else ret ())
               (\<lambda>_. bind (logging (info ''Schema validation passed'' []))
                 (\<lambda>_. ret True))))"

definition count_null :: "cell list \<Rightarrow> nat" where
  "count_null xs = length (filter (\<lambda>x. x = Null) xs)"

definition validate_data_types :: "env \<Rightarrow> cstate \<Rightarrow> unit outcome \<times> cstate" where
  "validate_data_types ev =
     bind (logging (info ''Validating data types...'' []))
       (\<lambda>_. bind (getcol ''year'')
       (\<lambda>year. bind (lift (astype_Int64 (map (to_numeric ev) year)))
       (\<lambda>year'. bind (get_data not_subscriptable)
       (\<lambda>t. bind (put_data (assign ''year'' year' t))
       (\<lambda>_. bind (getcol ''area_id'')
       (\<lambda>area. bind (lift (astype_Int64 (map (to_numeric ev) area)))
       (\<lambda>area'. bind (get_data not_subscriptable)
       (\<lambda>t. bind (put_data (assign ''area_id'' area' t))
       (\<lambda>_. bind (getcol ''exchange_value'')
       (\<lambda>val. bind (get_data not_subscriptable)
       (\<lambda>t. bind (put_data (assign ''exchange_value'' (map (to_numeric ev) val) t))
       (\<lambda>_. bind (getcol ''year'')
       (\<lambda>year. bind (getcol ''exchange_value'')
       (\<lambda>val. let null_years = count_null year; null_values = count_null val in
          bind (if null_years > 0
                then logging (warning ''Found {} null years after conversion'' [AInt (int null_years)])
                else ret ())
          (\<lambda>_. if null_values > 0
                then logging (warning ''Found {} null exchange values after conversion''
                                [AInt (int null_values)])
                else ret ())))))))))))))))"

definition out_of_range :: "cell \<Rightarrow> bool" where
  "out_of_range y = (lt_num y 1997 \<or> gt_num y 2021)"

text \<open>
  The issues are collected as message and values; each is logged as a warning. The table
  is only read, and the return value is always \<open>True\<close>.
\<close>

definition validate_data_ranges :: "cstate \<Rightarrow> bool outcome \<times> cstate" where
  "validate_data_ranges =
     bind (logging (info ''Validating data ranges...'' []))
       (\<lambda>_. bind (num_series ''exchange_value'')
       (\<lambda>val. let issues1 =
                 (if list_ex (\<lambda>x. lt_num x 0) val
                  then [(''Data quality issue: {} negative exchange values'',
                         [AInt (int (length (filter (\<lambda>x. lt_num x 0) val)))])]
                  else []) in
          bind (num_series ''year'')
       (\<lambda>year. let issues =
                 (if list_ex (\<lambda>y. lt_num y 1997) year \<or> list_ex (\<lambda>y. gt_num y 2021) year
                  then issues1 @
                       [(''Data quality issue: Years outside expected range (1997-2021): {}'',
                         [ACells (unique (filter out_of_range year))])]
                  else issues1) in
          bind (if issues \<noteq> []
                then logging (\<lambda>w. fold (\<lambda>(m, as). warning m as) issues w)
                else logging (info ''Data range validation passed'' []))
       (\<lambda>_. ret True))))"

text \<open>
  The three category checks share a shape: the values of the column that are outside the
  expected list are logged as a warning; when there are none, the sorted values are logged.
\<close>

definition expected_ecosystems :: "string list" where
  "expected_ecosystems =
     [''Inshore '' @ em_dash @ '' Reef'', ''Coastal '' @ em_dash @ '' Open Ocean'',
      ''All Ecosystems'']"

definition validate_ecosystem_types :: "cstate \<Rightarrow> unit outcome \<times> cstate" where
  "validate_ecosystem_types =
     bind (logging (info ''Validating ecosystem types...'' []))
       (\<lambda>_. bind (getcol ''ecosystem_type'')
       (\<lambda>col. let unique_ecosystems = unique col;
                  unexpected = filter (\<lambda>e. e \<notin> set (map Str expected_ecosystems)) unique_ecosystems in
          if unexpected \<noteq> []
          then logging (warning ''Unexpected ecosystem types: {}'' [ACells unexpected])
          else bind (lift (py_sorted unique_ecosystems))
                 (\<lambda>srt. logging (info ''All ecosystem types valid: {}'' [ACells srt]))))"

definition expected_species :: "string list" where
  "expected_species =
     [''Deep 7 Bottomfish'', ''Shallow Bottomfish'', ''Pelagics'', ''Reef-Associated'',
      ''All Species'']"

definition validate_species_groups :: "cstate \<Rightarrow> unit outcome \<times> cstate" where
  "validate_species_groups =
     bind (logging (info ''Validating species groups...'' []))
       (\<lambda>_. bind (getcol ''species_group'')
       (\<lambda>col. let unique_species = unique col;
                  unexpected = filter (\<lambda>s. s \<notin> set (map Str expected_species)) unique_species in
          if unexpected \<noteq> []
          then logging (warning ''Unexpected species groups: {}'' [ACells unexpected])
          else bind (lift (py_sorted unique_species))
                 (\<lambda>srt. logging (info ''All species groups valid: {}'' [ACells srt]))))"

definition expected_counties :: "string list" where
  "expected_counties = [''Hawaii'', ''Maui'', ''Honolulu'', ''Kauai'', ''Kalawao'']"

definition validate_counties :: "cstate \<Rightarrow> unit outcome \<times> cstate" where
  "validate_counties =
     bind (logging (info ''Validating county names...'' []))
       (\<lambda>_. bind (getcol ''county'')
       (\<lambda>col. let unique_counties = unique col;
                  unexpected = filter (\<lambda>c. c \<notin> set (map Str expected_counties)) unique_counties in
          if unexpected \<noteq> []
          then logging (warning ''Unexpected county names: {}'' [ACells unexpected])
          else bind (lift (py_sorted unique_counties))
                 (\<lambda>srt. logging (info ''All counties valid: {}'' [ACells srt]))))"

definition notna :: "cell \<Rightarrow> bool" where
  "notna x = (x \<noteq> Null)"

definition remove_null_values :: "cstate \<Rightarrow> unit outcome \<times> cstate" where
  "remove_null_values =
     bind (logging (info ''Removing null/NA exchange values...'' []))
       (\<lambda>_. bind (get_data no_len)
       (\<lambda>t. let before_count = length (rows t) in
          bind (getcol ''exchange_value'')
       (\<lambda>_. let t' = select (\<lambda>r. notna (cell_of r ''exchange_value'')) t in
          bind (put_data t')
       (\<lambda>_. let after_count = length (rows t');
                removed = int before_count - int after_count in
          if removed > 0
          then logging (info ''Removed {:,} records with null/NA exchange values'' [AInt removed])
          else logging (info ''No null/NA values to remove'' [])))))"

text \<open>\<^verbatim>\<open>series.isin(values)\<close> on one cell, for a list of strings.\<close>

definition isin :: "cell \<Rightarrow> string list \<Rightarrow> bool" where
  "isin x vs = (case x of Str s \<Rightarrow> s \<in> set vs | _ \<Rightarrow> False)"

definition remove_aggregate_rows :: "bool \<Rightarrow> cstate \<Rightarrow> unit outcome \<times> cstate" where
  "remove_aggregate_rows remove_aggregates =
     (if \<not> remove_aggregates
      then logging (info ''Skipping aggregate row removal (remove_aggregates=False)'' [])
      else
        bind (logging (info ''Removing aggregate rows...'' []))
          (\<lambda>_. bind (get_data no_len)
          (\<lambda>t. let before_count = length (rows t) in
             bind (getcol ''species_group'')
          (\<lambda>_. let t1 = select (\<lambda>r. \<not> isin (cell_of r ''species_group'') [''All Species'']) t in
             bind (put_data t1)
          (\<lambda>_. bind (getcol ''ecosystem_type'')
          (\<lambda>_. let t2 = select (\<lambda>r. \<not> isin (cell_of r ''ecosystem_type'') [''All Ecosystems'']) t1 in
             bind (put_data t2)
          (\<lambda>_. let after_count = length (rows t2);
                   removed = int before_count - int after_count in
             if removed > 0
             then logging (info ''Removed {:,} aggregate rows'' [AInt removed])
             else logging (info ''No aggregate rows found to remove'' []))))))))"

definition display_columns :: "string list" where
  "display_columns = [''county_olelo'', ''exchange_value_formatted'']"

definition remove_display_columns :: "bool \<Rightarrow> cstate \<Rightarrow> unit outcome \<times> cstate" where
  "remove_display_columns remove_display =
     (if \<not> remove_display
      then logging (info ''Keeping display columns (remove_display=False)'' [])
      else
        bind (logging (info ''Removing display-only columns...'' []))
          (\<lambda>_. bind (get_data (AttributeError ''NoneType object has no attribute columns''))
          (\<lambda>t. let columns_to_drop = filter (\<lambda>col. col \<in> set (columns t)) display_columns in
             if columns_to_drop \<noteq> []
             then bind (put_data (drop_columns columns_to_drop t))
                    (\<lambda>_. logging (info ''Removed columns: {}'' [AStrs columns_to_drop]))
             else logging (info ''No display columns to remove'' []))))"

text \<open>
  \<^verbatim>\<open>int(series.min())\<close> and \<^verbatim>\<open>int(series.max())\<close> on the year column: the minimum of no
  values is \<^verbatim>\<open>pd.NA\<close>, which \<^verbatim>\<open>int\<close> refuses.
\<close>

definition int_min :: "cell list \<Rightarrow> error + int" where
  "int_min xs =
     (case numbers xs of
        [] \<Rightarrow> Inl (TypeError ''int() argument must be a real number, not NAType'')
      | q # qs \<Rightarrow> Inr \<lfloor>fold min qs q\<rfloor>)"

definition int_max :: "cell list \<Rightarrow> error + int" where
  "int_max xs =
     (case numbers xs of
        [] \<Rightarrow> Inl (TypeError ''int() argument must be a real number, not NAType'')
      | q # qs \<Rightarrow> Inr \<lfloor>fold max qs q\<rfloor>)"

definition int_of_cells :: "cell list \<Rightarrow> int list" where
  "int_of_cells xs = map floor (numbers xs)"

text \<open>
  \<^verbatim>\<open>df.groupby('year')\<close>: the keys are the years that are not missing, in ascending order;
  \<open>size\<close> counts the rows of a key and \<open>sum\<close> adds the values of a column that are not
  missing.
\<close>

definition group_keys :: "table \<Rightarrow> int list" where
  "group_keys t = sort (unique (int_of_cells (column t ''year'')))"

definition group :: "table \<Rightarrow> int \<Rightarrow> row list" where
  "group t y = filter (\<lambda>r. cell_of r ''year'' = Num (of_int y)) (rows t)"

definition groupby_year_size :: "table \<Rightarrow> (int \<times> nat) list" where
  "groupby_year_size t = map (\<lambda>y. (y, length (group t y))) (group_keys t)"

definition groupby_year_sum :: "table \<Rightarrow> string \<Rightarrow> (int \<times> rat) list" where
  "groupby_year_sum t c =
     map (\<lambda>y. (y, sum_list (numbers (map (\<lambda>r. cell_of r c) (group t y))))) (group_keys t)"

text \<open>
  The entries of the dictionary are evaluated in the order of the source; the first one
  that raises ends the call. Called by \<open>run_cleaning_pipeline\<close> after
  \<open>validate_data_types\<close>, so the year, area and value columns hold numbers and missing
  values only.
\<close>

definition generate_summary_statistics :: "env \<Rightarrow> cstate \<Rightarrow> commercial_summary outcome \<times> cstate" where
  "generate_summary_statistics ev =
     bind (logging (info ''Generating summary statistics...'' []))
       (\<lambda>_. bind get_self
       (\<lambda>self. bind (get_data no_len)
       (\<lambda>t. bind (num_series ''year'')
       (\<lambda>year. bind (lift (int_min year))
       (\<lambda>mn. bind (lift (int_max year))
       (\<lambda>mx. bind (num_series ''exchange_value'')
       (\<lambda>val. bind (getcol ''county'')
       (\<lambda>county. bind (lift (py_sorted (unique county)))
       (\<lambda>counties. bind (getcol ''species_group'')
       (\<lambda>species. bind (lift (py_sorted (unique species)))
       (\<lambda>species_groups. bind (getcol ''ecosystem_type'')
       (\<lambda>eco. bind (lift (py_sorted (unique eco)))
       (\<lambda>ecosystem_types. bind (num_series ''area_id'')
       (\<lambda>area. ret
          \<lparr>summary.raw_row_count = cleaner.raw_row_count self,
           summary.cleaned_row_count = length (rows t),
           rows_removed = int (cleaner.raw_row_count self) - int (length (rows t)),
           date_range = \<lparr>min_year = mn, max_year = mx\<rparr>,
           summary.total_exchange_value = sum_list (numbers val),
           data_type = ''commercial'',
           processing_timestamp = isoformat ev,
           unique_counties = counties,
           unique_species_groups = species_groups,
           unique_ecosystem_types = ecosystem_types,
           unique_area_ids = sort (int_of_cells (unique area)),
           records_by_year = groupby_year_size t,
           total_value_by_year = groupby_year_sum t ''exchange_value''\<rparr>))))))))))))))"

text \<open>Writing the file is taken to succeed; a later write to the same path replaces it.\<close>

definition export_cleaned_data :: "env \<Rightarrow> cstate \<Rightarrow> string outcome \<times> cstate" where
  "export_cleaned_data ev =
     bind (logging (info ''Exporting cleaned commercial data...'' []))
       (\<lambda>_ (c, w).
          let timestamp = strftime ev ''%Y%m%d'';
              output_file = path_join (output_dir c) (''cleaned_commercial_'' @ timestamp @ ''.csv'')
          in case data c of
               None \<Rightarrow> (Raised (AttributeError ''NoneType object has no attribute to_csv''), c, w)
             | Some t \<Rightarrow>
                 (Returned output_file,
                  c\<lparr>cleaner.cleaned_row_count := length (rows t)\<rparr>,
                  info ''Exported {:,} rows to {}'' [AInt (int (length (rows t))), AStr output_file]
                    (w\<lparr>files := (files w)(output_file \<mapsto> Csv t)\<rparr>)))"

definition banner :: "nat \<Rightarrow> string" where
  "banner n = replicate n (CHR ''='')"

definition run_cleaning_pipeline ::
  "env \<Rightarrow> bool \<Rightarrow> bool \<Rightarrow> cstate \<Rightarrow> (bool \<times> string option \<times> commercial_summary option) outcome \<times> cstate" where
  "run_cleaning_pipeline ev remove_aggregates remove_display =
     bind (logging (info (banner 60) []))
       (\<lambda>_. bind (logging (info ''COMMERCIAL FISHERIES DATA CLEANING PIPELINE'' []))
       (\<lambda>_. bind (logging (info (banner 60) []))
       (\<lambda>_. bind (load_data ev)
       (\<lambda>loaded. if \<not> loaded then ret (False, None, None) else
          bind validate_schema
       (\<lambda>valid. if \<not> valid then ret (False, None, None) else
          bind (validate_data_types ev)
       (\<lambda>_. bind validate_data_ranges
       (\<lambda>_. bind validate_ecosystem_types
       (\<lambda>_. bind validate_species_groups
       (\<lambda>_. bind validate_counties
       (\<lambda>_. bind remove_null_values
       (\<lambda>_. bind (remove_aggregate_rows remove_aggregates)
       (\<lambda>_. bind (remove_display_columns remove_display)
       (\<lambda>_. bind (export_cleaned_data ev)
       (\<lambda>output_file. bind (generate_summary_statistics ev)
       (\<lambda>summary. bind (logging (info (banner 60) []))
       (\<lambda>_. bind (logging (info ''COMMERCIAL DATA CLEANING COMPLETE'' []))
       (\<lambda>_. bind get_self
       (\<lambda>self. bind (logging (info ''Input:  {:,} rows'' [AInt (int (cleaner.raw_row_count self))]))
       (\<lambda>_. bind (logging (info ''Output: {:,} rows'' [AInt (int (cleaner.cleaned_row_count self))]))
       (\<lambda>_. bind (logging (info ''Removed: {:,} rows''
                [AInt (int (cleaner.raw_row_count self) - int (cleaner.cleaned_row_count self))]))
       (\<lambda>_. bind (logging (info (banner 60) []))
       (\<lambda>_. ret (True, Some output_file, Some summary)))))))))))))))))))))))"

section \<open>FisheriesCleaningPipeline (pipeline.py)\<close>

text \<open>
  An entry of \<^verbatim>\<open>self.results\<close>: the dictionary with the keys \<^verbatim>\<open>success\<close>,
  \<^verbatim>\<open>output_file\<close> and \<^verbatim>\<open>summary\<close> stored after a success, or the one with the keys
  \<^verbatim>\<open>success\<close> and \<^verbatim>\<open>error\<close> stored after a failure. Before a cleaner has run its entry
  is \<^verbatim>\<open>None\<close>.
\<close>

datatype 's result = Succeeded string "'s option" | Failed string

record results =
  commercial :: "commercial_summary result option"
  non_commercial :: "noncommercial_summary result option"

record pipeline =
  input_dir :: string
  output_dir :: string
  commercial_cleaner :: cleaner
  results :: results

type_synonym pstate = "pipeline \<times> world"

text \<open>
  Modelled from the spec: \<^verbatim>\<open>NonCommercialDataCleaner.run_cleaning_pipeline\<close>, whose module
  is not among the sources. A run of it, for given flags, is its return value or
  exception, the records it logs and the cleaned CSV files it writes.
\<close>

type_synonym noncommercial_run =
  "bool \<Rightarrow> bool \<Rightarrow>
   (bool \<times> string option \<times> noncommercial_summary option) outcome \<times> log_record list \<times> (string \<times> table) list"

definition FisheriesCleaningPipeline :: "string \<Rightarrow> string \<Rightarrow> pipeline" where
  "FisheriesCleaningPipeline idir odir =
     \<lparr>pipeline.input_dir = idir, pipeline.output_dir = odir,
      commercial_cleaner = CommercialDataCleaner idir odir,
      results = \<lparr>results.commercial = None, results.non_commercial = None\<rparr>\<rparr>"

definition write_file :: "string \<Rightarrow> content \<Rightarrow> world \<Rightarrow> world" where
  "write_file path x w = w\<lparr>files := (files w)(path \<mapsto> x)\<rparr>"

definition absolute :: "env \<Rightarrow> string \<Rightarrow> string" where
  "absolute ev path = (if startswith path ''/'' then path else path_join (cwd ev) path)"

definition setup_logging :: "env \<Rightarrow> pstate \<Rightarrow> unit outcome \<times> pstate" where
  "setup_logging ev =
     (let timestamp = strftime ev ''%Y%m%d_%H%M%S'';
          log_file = path_join ''logs'' (''cleaning_pipeline_'' @ timestamp @ ''.log'')
      in bind (logging (write_file log_file LogFile))
           (\<lambda>_. logging (info ''Logging initialized: {}'' [AStr log_file])))"

text \<open>\<^verbatim>\<open>str(output_file)\<close>.\<close>

definition str_of :: "string option \<Rightarrow> string" where
  "str_of f = (case f of None \<Rightarrow> ''None'' | Some path \<Rightarrow> path)"

text \<open>A method call on \<^verbatim>\<open>self.commercial_cleaner\<close>.\<close>

definition on_commercial_cleaner :: "(cstate \<Rightarrow> 'a outcome \<times> cstate) \<Rightarrow> pstate \<Rightarrow> 'a outcome \<times> pstate" where
  "on_commercial_cleaner m s =
     (case m (commercial_cleaner (fst s), snd s) of
        (r, c', w') \<Rightarrow> (r, (fst s)\<lparr>commercial_cleaner := c'\<rparr>, w'))"

definition set_commercial :: "commercial_summary result \<Rightarrow> pstate \<Rightarrow> unit outcome \<times> pstate" where
  "set_commercial r = (\<lambda>(p, w).
     (Returned (), p\<lparr>results := (results p)\<lparr>results.commercial := Some r\<rparr>\<rparr>, w))"

definition set_non_commercial :: "noncommercial_summary result \<Rightarrow> pstate \<Rightarrow> unit outcome \<times> pstate" where
  "set_non_commercial r = (\<lambda>(p, w).
     (Returned (), p\<lparr>results := (results p)\<lparr>results.non_commercial := Some r\<rparr>\<rparr>, w))"

definition run_commercial_cleaning :: "env \<Rightarrow> bool \<Rightarrow> bool \<Rightarrow> pstate \<Rightarrow> bool outcome \<times> pstate" where
  "run_commercial_cleaning ev remove_aggregates remove_display =
     bind (logging (info [] []))
       (\<lambda>_. bind (logging (info ''STARTING COMMERCIAL DATA CLEANING'' []))
       (\<lambda>_. bind (logging (info [] []))
       (\<lambda>_. bind (on_commercial_cleaner (run_cleaning_pipeline ev remove_aggregates remove_display))
       (\<lambda>(success, output_file, summary).
          if success
          then bind (set_commercial (Succeeded (str_of output_file) summary)) (\<lambda>_. ret True)
          else bind (set_commercial (Failed ''Commercial data cleaning failed''))
                 (\<lambda>_. ret False)))))"

definition on_noncommercial_cleaner ::
  "((bool \<times> string option \<times> noncommercial_summary option) outcome \<times> log_record list \<times> (string \<times> table) list)
   \<Rightarrow> pstate \<Rightarrow> (bool \<times> string option \<times> noncommercial_summary option) outcome \<times> pstate" where
  "on_noncommercial_cleaner run = (\<lambda>(p, w).
     case run of (r, recs, csvs) \<Rightarrow>
       (r, p, fold (\<lambda>(path, t). write_file path (Csv t)) csvs (w\<lparr>logged := logged w @ recs\<rparr>)))"

definition run_noncommercial_cleaning ::
  "noncommercial_run \<Rightarrow> bool \<Rightarrow> bool \<Rightarrow> pstate \<Rightarrow> bool outcome \<times> pstate" where
  "run_noncommercial_cleaning nc remove_aggregates remove_display =
     bind (logging (info [] []))
       (\<lambda>_. bind (logging (info ''STARTING NON-COMMERCIAL DATA CLEANING'' []))
       (\<lambda>_. bind (logging (info [] []))
       (\<lambda>_. bind (on_noncommercial_cleaner (nc remove_aggregates remove_display))
       (\<lambda>(success, output_file, summary).
          if success
          then bind (set_non_commercial (Succeeded (str_of output_file) summary)) (\<lambda>_. ret True)
          else bind (set_non_commercial (Failed ''Non-commercial data cleaning failed''))
                 (\<lambda>_. ret False)))))"

text \<open>
  \<^verbatim>\<open>entry['summary']\<close> on an entry of \<^verbatim>\<open>self.results\<close>: the dictionary stored after a
  failure has no such key.
\<close>

definition summary_of :: "'s result \<Rightarrow> error + 's option" where
  "summary_of r = (case r of Succeeded f s \<Rightarrow> Inr s | Failed e \<Rightarrow> Inl (KeyError ''summary''))"

text \<open>
  \<^verbatim>\<open>entry['summary'] if entry else None\<close>: an entry is false only when it is \<^verbatim>\<open>None\<close>;
  both dictionaries are non-empty, hence true.
\<close>

definition summary_if :: "'s result option \<Rightarrow> error + 's option" where
  "summary_if entry = (case entry of None \<Rightarrow> Inr None | Some r \<Rightarrow> summary_of r)"

text \<open>\<^verbatim>\<open>s[key]\<close> for a summary that may be \<^verbatim>\<open>None\<close>.\<close>

definition subscript :: "'s option \<Rightarrow> error + 's" where
  "subscript s = (case s of None \<Rightarrow> Inl not_subscriptable | Some x \<Rightarrow> Inr x)"

definition get_results :: "pstate \<Rightarrow> results outcome \<times> pstate" where
  "get_results = (\<lambda>(p, w). (Returned (results p), p, w))"

definition generate_combined_summary :: "env \<Rightarrow> pstate \<Rightarrow> combined_summary outcome \<times> pstate" where
  "generate_combined_summary ev =
     bind (logging (info ''Generating combined summary statistics...'' []))
       (\<lambda>_. bind get_results
       (\<lambda>res. bind (lift (summary_if (results.commercial res)))
       (\<lambda>comm. bind (lift (summary_if (results.non_commercial res)))
       (\<lambda>noncomm.
          let combined_summary =
                \<lparr>pipeline_timestamp = isoformat ev,
                 combined_summary.commercial = comm,
                 combined_summary.non_commercial = noncomm,
                 overall = None\<rparr> in
          case (results.commercial res, results.non_commercial res) of
            (Some rc, Some rn) \<Rightarrow>
               bind (lift (summary_of rc))
                 (\<lambda>sc. bind (lift (subscript sc))
                 (\<lambda>c. bind (lift (summary_of rn))
                 (\<lambda>sn. bind (lift (subscript sn))
                 (\<lambda>n. ret (combined_summary
                     \<lparr>overall := Some
                        \<lparr>total_records = summary.cleaned_row_count c + summary.cleaned_row_count n,
                         overall.total_exchange_value =
                           summary.total_exchange_value c + summary.total_exchange_value n,
                         combined_date_range =
                           \<lparr>min_year = min (min_year (date_range c)) (min_year (date_range n)),
                            max_year = max (max_year (date_range c)) (max_year (date_range n))\<rparr>\<rparr>\<rparr>)))))
          | _ \<Rightarrow> ret combined_summary))))"

text \<open>Serialising and writing the file are taken to succeed.\<close>

definition export_summary_json :: "env \<Rightarrow> combined_summary \<Rightarrow> pstate \<Rightarrow> string outcome \<times> pstate" where
  "export_summary_json ev summary =
     bind (logging (info ''Exporting summary statistics to JSON...'' []))
       (\<lambda>_. bind get_self
       (\<lambda>self. let timestamp = strftime ev ''%Y%m%d'';
                   output_file = path_join (pipeline.output_dir self)
                                   (''cleaning_summary_'' @ timestamp @ ''.json'') in
          bind (logging (write_file output_file (Json summary)))
       (\<lambda>_. bind (logging (info ''Summary exported to {}'' [AStr output_file]))
       (\<lambda>_. ret output_file))))"

definition report_common :: "'a summary_scheme \<Rightarrow> pstate \<Rightarrow> unit outcome \<times> pstate" where
  "report_common s =
     bind (logging (info ''  Input Rows:  {:,}'' [AInt (int (summary.raw_row_count s))]))
       (\<lambda>_. bind (logging (info ''  Output Rows: {:,}'' [AInt (int (summary.cleaned_row_count s))]))
       (\<lambda>_. bind (logging (info ''  Removed:     {:,}'' [AInt (rows_removed s)]))
       (\<lambda>_. bind (logging (info ''  Date Range:  {}-{}''
                           [AInt (min_year (date_range s)), AInt (max_year (date_range s))]))
       (\<lambda>_. logging (info ''  Total Value: ${:,.2f}'' [ARat (summary.total_exchange_value s)])))))"

text \<open>
  The report tests \<^verbatim>\<open>entry and entry['success']\<close>: it reads the summary only of a cleaner
  that succeeded.
\<close>

definition generate_pipeline_report :: "pstate \<Rightarrow> unit outcome \<times> pstate" where
  "generate_pipeline_report =
     bind (logging (info [] []))
       (\<lambda>_. bind (logging (info (banner 70) []))
       (\<lambda>_. bind (logging (info ''FISHERIES DATA CLEANING PIPELINE - FINAL REPORT'' []))
       (\<lambda>_. bind (logging (info (banner 70) []))
       (\<lambda>_. bind get_results
       (\<lambda>res. bind
          (case results.commercial res of
             Some (Succeeded f comm_summary) \<Rightarrow>
               bind (logging (info [] []))
                 (\<lambda>_. bind (logging (info ''COMMERCIAL FISHERIES:'' []))
                 (\<lambda>_. bind (logging (info ''  Status: SUCCESS'' []))
                 (\<lambda>_. bind (lift (subscript comm_summary))
                 (\<lambda>s. bind (report_common s)
                 (\<lambda>_. bind (logging (info ''  Counties:    {}'' [AInt (int (length (unique_counties s)))]))
                 (\<lambda>_. bind (logging (info ''  Species:     {}''
                                     [AInt (int (length (unique_species_groups s)))]))
                 (\<lambda>_. logging (info ''  DAR Areas:   {}'' [AInt (int (length (unique_area_ids s)))]))))))))
           | _ \<Rightarrow>
               bind (logging (info [] []))
                 (\<lambda>_. logging (info ''COMMERCIAL FISHERIES: FAILED'' [])))
       (\<lambda>_. bind
          (case results.non_commercial res of
             Some (Succeeded f noncomm_summary) \<Rightarrow>
               bind (logging (info [] []))
                 (\<lambda>_. bind (logging (info ''NON-COMMERCIAL FISHERIES:'' []))
                 (\<lambda>_. bind (logging (info ''  Status: SUCCESS'' []))
                 (\<lambda>_. bind (lift (subscript noncomm_summary))
                 (\<lambda>s. bind (report_common s)
                 (\<lambda>_. logging (info ''  Islands:     {}'' [AInt (int (length (unique_islands s)))]))))))
           | _ \<Rightarrow>
               bind (logging (info [] []))
                 (\<lambda>_. logging (info ''NON-COMMERCIAL FISHERIES: FAILED'' [])))
       (\<lambda>_. bind (logging (info [] []))
       (\<lambda>_. logging (info (banner 70) [])))))))))"

text \<open>
  The body of \<^verbatim>\<open>run_full_pipeline\<close>, statement by statement: it sets up the logging, runs
  the two cleaners, logs the report and returns the conjunction of the two results.
\<close>

definition run_full_pipeline ::
  "env \<Rightarrow> noncommercial_run \<Rightarrow> bool \<Rightarrow> bool \<Rightarrow> pstate \<Rightarrow> bool outcome \<times> pstate" where
  "run_full_pipeline ev nc remove_aggregates remove_display =
     bind (setup_logging ev)
       (\<lambda>_. bind (logging (info (banner 70) []))
       (\<lambda>_. bind (logging (info ''FISHERIES DATA CLEANING PIPELINE - START'' []))
       (\<lambda>_. bind (logging (info (banner 70) []))
       (\<lambda>_. bind get_self
       (\<lambda>self. bind (logging (info ''Input Directory:  {}'' [AStr (absolute ev (pipeline.input_dir self))]))
       (\<lambda>_. bind (logging (info ''Output Directory: {}'' [AStr (absolute ev (pipeline.output_dir self))]))
       (\<lambda>_. bind (logging (info ''Remove Aggregates: {}'' [ABool remove_aggregates]))
       (\<lambda>_. bind (logging (info ''Remove Display Columns: {}'' [ABool remove_display]))
       (\<lambda>_. bind (logging (info (banner 70) []))
       (\<lambda>_. bind (run_commercial_cleaning ev remove_aggregates remove_display)
       (\<lambda>comm_success. bind (run_noncommercial_cleaning nc remove_aggregates remove_display)
       (\<lambda>noncomm_success. bind generate_pipeline_report
       (\<lambda>_. let overall_success = (comm_success \<and> noncomm_success) in
          bind (if overall_success
                then logging (info ''PIPELINE STATUS: SUCCESS'' [])
                else logging (info ''PIPELINE STATUS: PARTIAL SUCCESS OR FAILURE'' []))
       (\<lambda>_. ret overall_success))))))))))))))"

definition print :: "string \<Rightarrow> 'a \<times> world \<Rightarrow> unit outcome \<times> 'a \<times> world" where
  "print line = (\<lambda>(p, w). (Returned (), p, w\<lparr>stdout := stdout w @ [line]\<rparr>))"

definition check_mark :: string where
  "check_mark = [CHR 0xE2, CHR 0x9C, CHR 0x93]"

definition ballot_x :: string where
  "ballot_x = [CHR 0xE2, CHR 0x9C, CHR 0x97]"

definition main :: "env \<Rightarrow> noncommercial_run \<Rightarrow> world \<Rightarrow> bool outcome \<times> pstate" where
  "main ev nc w =
     bind (run_full_pipeline ev nc False False)
       (\<lambda>success. bind
          (if success
           then bind (print ([CHR 0x0A] @ check_mark @ '' Data cleaning completed successfully!''))
                  (\<lambda>_. bind (print ''  Cleaned files saved to: data/cleaned/'')
                  (\<lambda>_. print ''  Summary JSON saved to: data/cleaned/''))
           else print ([CHR 0x0A] @ ballot_x
                        @ '' Data cleaning encountered errors. Check logs for details.''))
       (\<lambda>_. ret success))
       (FisheriesCleaningPipeline ''data/raw'' ''data/cleaned'', w)"

section \<open>Vocabulary of the properties\<close>

text \<open>The log records with which \<open>run_cleaning_pipeline\<close> begins.\<close>

definition start :: "world \<Rightarrow> world" where
  "start w = info (banner 60) [] (info ''COMMERCIAL FISHERIES DATA CLEANING PIPELINE'' []
               (info (banner 60) [] w))"

text \<open>The table that \<open>validate_data_types\<close> stores: its three assignments, composed.\<close>

definition typed :: "env \<Rightarrow> table \<Rightarrow> table" where
  "typed ev t =
     (let t1 = assign ''year'' (map (to_numeric ev) (column t ''year'')) t;
          t2 = assign ''area_id'' (map (to_numeric ev) (column t1 ''area_id'')) t1
      in assign ''exchange_value'' (map (to_numeric ev) (column t2 ''exchange_value'')) t2)"

definition has_value :: "row \<Rightarrow> bool" where
  "has_value r = notna (cell_of r ''exchange_value'')"

definition is_aggregate :: "row \<Rightarrow> bool" where
  "is_aggregate r = (cell_of r ''species_group'' = Str ''All Species'' \<or>
                     cell_of r ''ecosystem_type'' = Str ''All Ecosystems'')"

definition without_display :: "table \<Rightarrow> table" where
  "without_display t = drop_columns (filter (\<lambda>col. col \<in> set (columns t)) display_columns) t"

text \<open>The path \<open>export_cleaned_data\<close> writes to.\<close>

definition cleaned_path :: "env \<Rightarrow> cleaner \<Rightarrow> string" where
  "cleaned_path ev c =
     path_join (cleaner.output_dir c) (''cleaned_commercial_'' @ strftime ev ''%Y%m%d'' @ ''.csv'')"

text \<open>The filters of the pipeline applied, in its order, to the table that was read.\<close>

definition cleaned :: "env \<Rightarrow> bool \<Rightarrow> bool \<Rightarrow> table \<Rightarrow> table" where
  "cleaned ev ra rd t0 =
     (let t1 = select has_value (typed ev t0);
          t2 = (if ra then select (\<lambda>r. \<not> is_aggregate r) t1 else t1)
      in if rd then without_display t2 else t2)"

text \<open>\<open>keeps R m\<close>: every call of \<open>m\<close>, returning or raising, relates the states by \<open>R\<close>.\<close>

definition keeps :: "('s \<Rightarrow> 's \<Rightarrow> bool) \<Rightarrow> ('s \<Rightarrow> 'a outcome \<times> 's) \<Rightarrow> bool" where
  "keeps R m = (\<forall>s out s'. m s = (out, s') \<longrightarrow> R s s')"

text \<open>The object (cleaner or pipeline) and the files are the same.\<close>

definition unchanged :: "'a \<times> world \<Rightarrow> 'a \<times> world \<Rightarrow> bool" where
  "unchanged s s' = (fst s' = fst s \<and> files (snd s') = files (snd s))"

definition same_files :: "'a \<times> world \<Rightarrow> 'a \<times> world \<Rightarrow> bool" where
  "same_files s s' = (files (snd s') = files (snd s))"

text \<open>The log has only been appended to.\<close>

definition log_grows :: "'a \<times> world \<Rightarrow> 'a \<times> world \<Rightarrow> bool" where
  "log_grows s s' = (\<exists>recs. logged (snd s') = logged (snd s) @ recs)"

section \<open>An example directory\<close>

definition open_ocean :: string where
  "open_ocean = ''Coastal '' @ em_dash @ '' Open Ocean''"

definition row_1996 :: row where
  "row_1996 = [(''year'', Num 1996), (''area_id'', Num 100), (''county'', Str ''Maui''),
     (''species_group'', Str ''Pelagics''), (''ecosystem_type'', Str open_ocean),
     (''exchange_value'', Num 500)]"

definition row_null :: row where
  "row_null = [(''year'', Num 2000), (''area_id'', Num 101), (''county'', Str ''Maui''),
     (''species_group'', Str ''Pelagics''), (''ecosystem_type'', Str open_ocean),
     (''exchange_value'', Null)]"

definition row_aggregate :: row where
  "row_aggregate = [(''year'', Str ''1995''), (''area_id'', Num 101), (''county'', Str ''Hawaii''),
     (''species_group'', Str ''All Species''), (''ecosystem_type'', Str ''All Ecosystems''),
     (''exchange_value'', Num 7)]"

definition raw_table :: table where
  "raw_table = \<lparr>columns = required_columns, rows = [row_1996, row_null, row_aggregate]\<rparr>"

definition ev1 :: env where
  "ev1 = \<lparr>listdir = (\<lambda>d. Inr [''notes.txt'', ''tidied_noncomm_ev.csv'', ''tidied_comm_ev.csv'']),
     read_csv = (\<lambda>p. if p = ''data/raw/tidied_comm_ev.csv'' then Inr raw_table else Inl (OSError p)),
     to_numeric_str = (\<lambda>s. if s = ''1995'' then Some 1995 else None),
     strftime = (\<lambda>f. if f = ''%Y%m%d'' then ''20240101'' else ''20240101_120000''),
     isoformat = ''2024-01-01T12:00:00'',
     cwd = ''/srv''\<rparr>"

definition w_init :: world where
  "w_init = \<lparr>logged = [], files = Map.empty, stdout = []\<rparr>"

definition c_init :: cleaner where
  "c_init = CommercialDataCleaner ''data/raw'' ''data/cleaned''"

definition c_loaded :: cleaner where
  "c_loaded = c_init\<lparr>data := Some raw_table, cleaner.raw_row_count := 3\<rparr>"

definition out_path :: string where
  "out_path = ''data/cleaned/cleaned_commercial_20240101.csv''"


definition ev_empty :: env where
  "ev_empty = ev1\<lparr>listdir := (\<lambda>d. Inr [''notes.txt'', ''tidied_noncomm_ev.csv''])\<rparr>"


text \<open>
  What \<open>validate_schema\<close> and \<open>validate_data_types\<close> establish: the required columns are
  there and the three numeric columns hold no string.
\<close>

definition well_typed :: "table \<Rightarrow> bool" where
  "well_typed t =
     (set required_columns \<subseteq> set (columns t) \<and> \<not> has_str (column t ''year'') \<and>
      \<not> has_str (column t ''area_id'') \<and> \<not> has_str (column t ''exchange_value''))"

text \<open>
  The condition under which neither \<^verbatim>\<open>astype('Int64')\<close> of \<open>validate_data_types\<close> raises:
  every year and every area, once converted, is missing or a whole number of int64.
\<close>

definition castable :: "env \<Rightarrow> table \<Rightarrow> bool" where
  "castable ev t =
     (list_all fits_Int64 (map (to_numeric ev) (column t ''year'')) \<and>
      list_all fits_Int64 (map (to_numeric ev) (column t ''area_id'')))"

definition table_null :: table where
  "table_null = \<lparr>columns = required_columns, rows = [row_null, row_null]\<rparr>"

definition ev_null :: env where
  "ev_null = ev1\<lparr>read_csv := (\<lambda>p. Inr table_null)\<rparr>"

text \<open>The record \<open>validate_data_ranges\<close> logs for a table with a year outside 1997-2021.\<close>

definition out_of_range_warning :: "table \<Rightarrow> log_record" where
  "out_of_range_warning t =
     (WARNING, ''Data quality issue: Years outside expected range (1997-2021): {}'',
      [ACells (unique (filter out_of_range (column t ''year'')))])"

definition c_typed :: cleaner where
  "c_typed = c_init\<lparr>data := Some (typed ev1 raw_table), cleaner.raw_row_count := 3\<rparr>"

text \<open>No file holding a combined summary appeared.\<close>

definition json_kept :: "'a \<times> world \<Rightarrow> 'a \<times> world \<Rightarrow> bool" where
  "json_kept s s' =
     (\<forall>path x. files (snd s') path = Some (Json x) \<longrightarrow> files (snd s) path = Some (Json x))"

definition summary_path :: string where
  "summary_path = ''data/cleaned/cleaning_summary_20240101.json''"

definition noncommercial_example :: noncommercial_summary where
  "noncommercial_example =
     \<lparr>summary.raw_row_count = 4, summary.cleaned_row_count = 4, rows_removed = 0,
      date_range = \<lparr>min_year = 2005, max_year = 2022\<rparr>, summary.total_exchange_value = 50,
      unique_islands = [Str ''Maui'', Str ''Oahu'']\<rparr>"

definition nc_ok :: noncommercial_run where
  "nc_ok ra rd =
     (Returned (True, Some ''data/cleaned/cleaned_noncommercial_20240101.csv'', Some noncommercial_example),
      [], [(''data/cleaned/cleaned_noncommercial_20240101.csv'', \<lparr>columns = [], rows = []\<rparr>)])"

definition nc_failed :: noncommercial_run where
  "nc_failed ra rd = (Returned (False, None, None), [], [])"

definition p_init :: pipeline where
  "p_init = FisheriesCleaningPipeline ''data/raw'' ''data/cleaned''"

definition p_both :: pipeline where
  "p_both = p_init\<lparr>results :=
     \<lparr>results.commercial = Some (Succeeded out_path
        (Some \<lparr>summary.raw_row_count = 3, summary.cleaned_row_count = 2, rows_removed = 1,
          date_range = \<lparr>min_year = 1995, max_year = 1996\<rparr>, summary.total_exchange_value = 507,
          data_type = ''commercial'', processing_timestamp = ''2024-01-01T12:00:00'',
          unique_counties = [Str ''Hawaii'', Str ''Maui''],
          unique_species_groups = [Str ''All Species'', Str ''Pelagics''],
          unique_ecosystem_types = [Str ''All Ecosystems'', Str open_ocean],
          unique_area_ids = [100, 101], records_by_year = [(1995, 1), (1996, 1)],
          total_value_by_year = [(1995, 7), (1996, 500)]\<rparr>)),
      results.non_commercial = Some (Succeeded ''data/cleaned/cleaned_noncommercial_20240101.csv''
        (Some noncommercial_example))\<rparr>\<rparr>"

text \<open>The log records with which a run that completes ends.\<close>

definition closing :: "cleaner \<Rightarrow> world \<Rightarrow> world" where
  "closing c w =
     info (banner 60) []
       (info ''Removed: {:,} rows''
          [AInt (int (cleaner.raw_row_count c) - int (cleaner.cleaned_row_count c))]
       (info ''Output: {:,} rows'' [AInt (int (cleaner.cleaned_row_count c))]
       (info ''Input:  {:,} rows'' [AInt (int (cleaner.raw_row_count c))]
       (info ''COMMERCIAL DATA CLEANING COMPLETE'' []
       (info (banner 60) [] w)))))"

text \<open>What \<open>validate_data_types\<close> makes of one row of the table that was read.\<close>

definition typed_row :: "env \<Rightarrow> row \<Rightarrow> row" where
  "typed_row ev r =
     (let r1 = set_cell ''year'' (to_numeric ev (cell_of r ''year'')) r;
          r2 = set_cell ''area_id'' (to_numeric ev (cell_of r1 ''area_id'')) r1
      in set_cell ''exchange_value'' (to_numeric ev (cell_of r2 ''exchange_value'')) r2)"




section \<open>Sequencing lemmas\<close>

lemma bind_pair_Returned:
  "bind m f (c, w) = (Returned r, s') \<longleftrightarrow>
     (\<exists>x c1 w1. m (c, w) = (Returned x, c1, w1) \<and> f x (c1, w1) = (Returned r, s'))"
  by (auto simp: bind_def split: prod.splits outcome.splits)

lemma ret_eq: "ret x s = (out, s') \<longleftrightarrow> out = Returned x \<and> s' = s"
  by (auto simp: ret_def)

lemma lift_Returned: "lift r s = (Returned x, s') \<longleftrightarrow> r = Inr x \<and> s' = s"
  by (auto simp: lift_def split: sum.splits)

lemma logging_eq: "logging f (c, w) = (out, s') \<longleftrightarrow> out = Returned () \<and> s' = (c, f w)"
  by (auto simp: logging_def)

lemma get_self_eq: "get_self (c, w) = (out, s') \<longleftrightarrow> out = Returned c \<and> s' = (c, w)"
  by (auto simp: get_self_def)

lemma get_data_Returned: "get_data e (c, w) = (Returned t, s') \<longleftrightarrow> data c = Some t \<and> s' = (c, w)"
  by (auto simp: get_data_def split: option.splits)

lemma put_data_eq: "put_data t (c, w) = (out, s') \<longleftrightarrow> out = Returned () \<and> s' = (c\<lparr>data := Some t\<rparr>, w)"
  by (auto simp: put_data_def)

lemma getcol_Returned:
  "getcol col (c, w) = (Returned xs, s') \<longleftrightarrow>
     (\<exists>t. data c = Some t \<and> col \<in> set (columns t) \<and> xs = column t col \<and> s' = (c, w))"
  by (auto simp: getcol_def bind_pair_Returned get_data_Returned ret_eq lift_Returned)

lemma num_series_Returned:
  "num_series col (c, w) = (Returned xs, s') \<longleftrightarrow>
     (\<exists>t. data c = Some t \<and> col \<in> set (columns t) \<and> xs = column t col \<and> \<not> has_str xs \<and> s' = (c, w))"
  by (auto simp: num_series_def bind_pair_Returned getcol_Returned ret_eq lift_Returned)

lemmas returned = bind_pair_Returned ret_eq lift_Returned logging_eq get_self_eq get_data_Returned
  put_data_eq getcol_Returned num_series_Returned

lemma keeps_bind:
  assumes "transp R" "keeps R m" "\<And>x. keeps R (f x)"
  shows "keeps R (bind m f)"
  unfolding keeps_def bind_def
proof (intro allI impI)
  fix s out s'
  assume a: "(case m s of (Returned x, s1) \<Rightarrow> f x s1 | (Raised e, s1) \<Rightarrow> (Raised e, s1)) = (out, s')"
  obtain o1 s1 where m: "m s = (o1, s1)" by (cases "m s")
  have r1: "R s s1" using assms(2) m by (auto simp: keeps_def)
  show "R s s'"
  proof (cases o1)
    case (Returned x)
    then have "f x s1 = (out, s')" using a m by simp
    then have "R s1 s'" using assms(3) by (auto simp: keeps_def)
    then show ?thesis using r1 assms(1) by (auto dest: transpD)
  next
    case (Raised e)
    then have "s' = s1" using a m by simp
    then show ?thesis using r1 by simp
  qed
qed

lemma keeps_ret: "reflp R \<Longrightarrow> keeps R (ret x)"
  by (auto simp: keeps_def ret_def reflp_def)

lemma keeps_lift: "reflp R \<Longrightarrow> keeps R (lift r)"
  by (auto simp: keeps_def lift_def reflp_def split: sum.splits)

lemma keeps_get_self: "reflp R \<Longrightarrow> keeps R get_self"
  by (auto simp: keeps_def get_self_def reflp_def)

lemma keeps_get_data: "reflp R \<Longrightarrow> keeps R (get_data e)"
  by (auto simp: keeps_def get_data_def reflp_def split: option.splits)

lemma keeps_if: "keeps R m1 \<Longrightarrow> keeps R m2 \<Longrightarrow> keeps R (if b then m1 else m2)"
  by simp

lemma keeps_getcol: "transp R \<Longrightarrow> reflp R \<Longrightarrow> keeps R (getcol col)"
  unfolding getcol_def by (intro keeps_bind keeps_get_data keeps_if keeps_ret keeps_lift)

lemma keeps_num_series: "transp R \<Longrightarrow> reflp R \<Longrightarrow> keeps R (num_series col)"
  unfolding num_series_def by (intro keeps_bind keeps_getcol keeps_if keeps_ret keeps_lift)

lemma unchanged_order [simp]: "transp unchanged" "reflp unchanged"
  by (auto simp: transp_def reflp_def unchanged_def)

lemma same_files_order [simp]: "transp same_files" "reflp same_files"
  by (auto simp: transp_def reflp_def same_files_def)

lemma log_grows_order [simp]: "transp log_grows" "reflp log_grows"
  by (auto simp: transp_def reflp_def log_grows_def)

lemma files_info [simp]: "files (info m as w) = files w"
  by (simp add: info_def)

lemma files_warning [simp]: "files (warning m as w) = files w"
  by (simp add: warning_def)

lemma files_log_error [simp]: "files (log_error m as w) = files w"
  by (simp add: log_error_def)

lemma files_fold_warning [simp]: "files (fold (\<lambda>(m, as). warning m as) xs w) = files w"
  by (induction xs arbitrary: w) auto

lemma files_start [simp]: "files (start w) = files w"
  by (simp add: start_def)

lemma unchanged_logging: "(\<And>w. files (f w) = files w) \<Longrightarrow> keeps unchanged (logging f)"
  by (auto simp: keeps_def logging_def unchanged_def)

lemma same_files_logging: "(\<And>w. files (f w) = files w) \<Longrightarrow> keeps same_files (logging f)"
  by (auto simp: keeps_def logging_def same_files_def)

lemma same_files_put_data: "keeps same_files (put_data t)"
  by (auto simp: keeps_def put_data_def same_files_def)

lemmas keeps_unchanged =
  keeps_bind [of unchanged] keeps_ret [of unchanged] keeps_lift [of unchanged]
  keeps_get_self [of unchanged] keeps_get_data [of unchanged] keeps_getcol [of unchanged]
  keeps_num_series [of unchanged] unchanged_logging keeps_if unchanged_order

lemmas keeps_same_files =
  keeps_bind [of same_files] keeps_ret [of same_files] keeps_lift [of same_files]
  keeps_get_self [of same_files] keeps_get_data [of same_files] keeps_getcol [of same_files]
  keeps_num_series [of same_files] same_files_logging same_files_put_data keeps_if same_files_order

lemma unchangedD:
  "keeps unchanged m \<Longrightarrow> m (c, w) = (out, c', w') \<Longrightarrow> c' = c \<and> files w' = files w"
  by (auto simp: keeps_def unchanged_def)

lemma same_filesD:
  "keeps same_files m \<Longrightarrow> m (c, w) = (out, c', w') \<Longrightarrow> files w' = files w"
  by (auto simp: keeps_def same_files_def)

section \<open>The stages of the cleaner\<close>

lemma generate_summary_statistics_unchanged: "keeps unchanged (generate_summary_statistics ev)"
  unfolding generate_summary_statistics_def
  by (intro keeps_unchanged files_info)

lemma validate_data_ranges_unchanged: "keeps unchanged validate_data_ranges"
  unfolding validate_data_ranges_def Let_def
  by (intro keeps_unchanged files_info files_fold_warning)

lemma validate_ecosystem_types_unchanged: "keeps unchanged validate_ecosystem_types"
  unfolding validate_ecosystem_types_def Let_def
  by (intro keeps_unchanged files_info files_warning)

lemma validate_species_groups_unchanged: "keeps unchanged validate_species_groups"
  unfolding validate_species_groups_def Let_def
  by (intro keeps_unchanged files_info files_warning)

lemma validate_counties_unchanged: "keeps unchanged validate_counties"
  unfolding validate_counties_def Let_def
  by (intro keeps_unchanged files_info files_warning)

lemma validate_schema_unchanged: "keeps unchanged validate_schema"
  unfolding validate_schema_def Let_def
  by (intro keeps_unchanged files_info files_log_error)

lemma validate_data_types_same_files: "keeps same_files (validate_data_types ev)"
  unfolding validate_data_types_def Let_def
  by (intro keeps_same_files files_info files_warning)

lemma remove_null_values_same_files: "keeps same_files remove_null_values"
  unfolding remove_null_values_def Let_def
  by (intro keeps_same_files files_info)

lemma remove_aggregate_rows_same_files: "keeps same_files (remove_aggregate_rows ra)"
  unfolding remove_aggregate_rows_def Let_def
  by (intro keeps_same_files files_info)

lemma remove_display_columns_same_files: "keeps same_files (remove_display_columns rd)"
  unfolding remove_display_columns_def Let_def
  by (intro keeps_same_files files_info)

lemma load_data_result:
  assumes "load_data ev (c, w) = (out, c', w')"
  shows "files w' = files w \<and>
    (out = Returned False \<and> c' = c \<or>
     (\<exists>path t. out = Returned True \<and> read_csv ev path = Inr t \<and>
        c' = c\<lparr>data := Some t, cleaner.raw_row_count := length (rows t)\<rparr>))"
  using assms unfolding load_data_def load_failed_def glob_def
  by (auto simp: Let_def split: sum.splits list.splits if_splits)

lemma validate_schema_True:
  assumes "validate_schema (c, w) = (Returned True, c', w')"
  shows "\<exists>t. data c = Some t \<and> set required_columns \<subseteq> set (columns t)"
  using assms unfolding validate_schema_def Let_def
  by (auto simp: returned filter_empty_conv split: if_splits)

lemma validate_data_types_Returned:
  assumes "validate_data_types ev (c, w) = (Returned x, c', w')"
  shows "\<exists>t. data c = Some t \<and> c' = c\<lparr>data := Some (typed ev t)\<rparr>"
  using assms unfolding validate_data_types_def Let_def typed_def
  by (auto simp: returned astype_Int64_def split: if_splits)

lemma select_select: "select P (select P2 t) = select (\<lambda>r. P2 r \<and> P r) t"
  by (simp add: select_def)

lemma isin_single: "isin x [s] = (x = Str s)"
  by (cases x) (auto simp: isin_def)

lemma remove_null_values_Returned:
  assumes "remove_null_values (c, w) = (Returned x, c', w')"
  shows "\<exists>t. data c = Some t \<and> c' = c\<lparr>data := Some (select has_value t)\<rparr>"
  using assms unfolding remove_null_values_def Let_def has_value_def
  by (auto simp: returned split: if_splits)

lemma remove_aggregate_rows_Returned:
  assumes "remove_aggregate_rows True (c, w) = (Returned x, c', w')"
  shows "\<exists>t. data c = Some t \<and> c' = c\<lparr>data := Some (select (\<lambda>r. \<not> is_aggregate r) t)\<rparr>"
  using assms unfolding remove_aggregate_rows_def Let_def is_aggregate_def
  by (auto simp: returned select_select isin_single select_def split: if_splits)

lemma remove_aggregate_rows_False:
  "remove_aggregate_rows False (c, w) =
     (Returned (), c, info ''Skipping aggregate row removal (remove_aggregates=False)'' [] w)"
  by (simp add: remove_aggregate_rows_def logging_def)

lemma drop_columns_Nil: "drop_columns [] t = t"
  by (cases t) (simp add: drop_columns_def split_def map_idI)

lemma remove_display_columns_Returned:
  assumes "remove_display_columns rd (c, w) = (Returned x, c', w')"
  shows "\<not> rd \<and> c' = c \<or> rd \<and> (\<exists>t. data c = Some t \<and> c' = c\<lparr>data := Some (without_display t)\<rparr>)"
  using assms unfolding remove_display_columns_def Let_def without_display_def
  by (auto simp: returned drop_columns_Nil split: if_splits)

lemma export_cleaned_data_result:
  assumes "export_cleaned_data ev (c, w) = (out, c', w')"
  shows "(\<exists>t. out = Returned (cleaned_path ev c) \<and> data c = Some t \<and>
            c' = c\<lparr>cleaner.cleaned_row_count := length (rows t)\<rparr> \<and>
            files w' = (files w)(cleaned_path ev c \<mapsto> Csv t))
         \<or> (\<exists>e. out = Raised e) \<and> c' = c \<and> files w' = files w"
  using assms unfolding export_cleaned_data_def cleaned_path_def
  by (auto simp: Let_def info_def bind_def logging_def split: option.splits)

lemma int_min_Inr: "int_min xs = Inr m \<Longrightarrow> numbers xs \<noteq> []"
  by (auto simp: int_min_def split: list.splits)

lemma generate_summary_statistics_Returned:
  assumes "generate_summary_statistics ev (c, w) = (Returned s, c', w')"
  shows "\<exists>t. data c = Some t \<and> numbers (column t ''year'') \<noteq> [] \<and>
          summary.raw_row_count s = cleaner.raw_row_count c \<and>
          summary.cleaned_row_count s = length (rows t) \<and>
          rows_removed s = int (cleaner.raw_row_count c) - int (length (rows t))"
  using assms unfolding generate_summary_statistics_def
  by (auto simp: returned dest!: int_min_Inr)

section \<open>A run that returns success\<close>

lemma run_stages:
  assumes "run_cleaning_pipeline ev ra rd (c, w) = (Returned (True, fo, so), c', w')"
  obtains c1 w1 c2 w2 c3 w3 c4 w4 c5 w5 c6 w6 c7 w7 c8 w8 c9 w9 c10 w10 c11 w11 c12 w12 b f s where
    "load_data ev (c, start w) = (Returned True, c1, w1)"
    "validate_schema (c1, w1) = (Returned True, c2, w2)"
    "validate_data_types ev (c2, w2) = (Returned (), c3, w3)"
    "validate_data_ranges (c3, w3) = (Returned b, c4, w4)"
    "validate_ecosystem_types (c4, w4) = (Returned (), c5, w5)"
    "validate_species_groups (c5, w5) = (Returned (), c6, w6)"
    "validate_counties (c6, w6) = (Returned (), c7, w7)"
    "remove_null_values (c7, w7) = (Returned (), c8, w8)"
    "remove_aggregate_rows ra (c8, w8) = (Returned (), c9, w9)"
    "remove_display_columns rd (c9, w9) = (Returned (), c10, w10)"
    "export_cleaned_data ev (c10, w10) = (Returned f, c11, w11)"
    "generate_summary_statistics ev (c11, w11) = (Returned s, c12, w12)"
    "fo = Some f" "so = Some s" "c' = c12" "files w' = files w12"
  using assms unfolding run_cleaning_pipeline_def start_def
  by (auto simp: returned split: if_splits)

lemma run_cleaning_pipeline_True:
  assumes "run_cleaning_pipeline ev ra rd (c, w) = (Returned (True, fo, so), c', w')"
  shows "\<exists>path t0 s. read_csv ev path = Inr t0 \<and> set required_columns \<subseteq> set (columns t0) \<and>
     fo = Some (cleaned_path ev c) \<and> so = Some s \<and>
     c' = c\<lparr>data := Some (cleaned ev ra rd t0), cleaner.raw_row_count := length (rows t0),
            cleaner.cleaned_row_count := length (rows (cleaned ev ra rd t0))\<rparr> \<and>
     files w' = (files w)(cleaned_path ev c \<mapsto> Csv (cleaned ev ra rd t0)) \<and>
     numbers (column (cleaned ev ra rd t0) ''year'') \<noteq> [] \<and>
     summary.raw_row_count s = length (rows t0) \<and>
     summary.cleaned_row_count s = length (rows (cleaned ev ra rd t0)) \<and>
     rows_removed s = int (length (rows t0)) - int (length (rows (cleaned ev ra rd t0)))"
proof -
  from assms obtain c1 w1 c2 w2 c3 w3 c4 w4 c5 w5 c6 w6 c7 w7 c8 w8 c9 w9 c10 w10 c11 w11 c12 w12 b f s
    where l: "load_data ev (c, start w) = (Returned True, c1, w1)"
      and v: "validate_schema (c1, w1) = (Returned True, c2, w2)"
      and ty: "validate_data_types ev (c2, w2) = (Returned (), c3, w3)"
      and rg: "validate_data_ranges (c3, w3) = (Returned b, c4, w4)"
      and ec: "validate_ecosystem_types (c4, w4) = (Returned (), c5, w5)"
      and sp: "validate_species_groups (c5, w5) = (Returned (), c6, w6)"
      and co: "validate_counties (c6, w6) = (Returned (), c7, w7)"
      and nu: "remove_null_values (c7, w7) = (Returned (), c8, w8)"
      and ag: "remove_aggregate_rows ra (c8, w8) = (Returned (), c9, w9)"
      and di: "remove_display_columns rd (c9, w9) = (Returned (), c10, w10)"
      and ex: "export_cleaned_data ev (c10, w10) = (Returned f, c11, w11)"
      and su: "generate_summary_statistics ev (c11, w11) = (Returned s, c12, w12)"
      and res: "fo = Some f" "so = Some s" "c' = c12" "files w' = files w12"
    by (rule run_stages)
  from load_data_result [OF l] obtain path t0
    where rd0: "read_csv ev path = Inr t0"
      and c1: "c1 = c\<lparr>data := Some t0, cleaner.raw_row_count := length (rows t0)\<rparr>"
      and f1: "files w1 = files w"
    by auto
  from unchangedD [OF validate_schema_unchanged v] have c2: "c2 = c1" and f2: "files w2 = files w1"
    by auto
  from validate_schema_True [OF v] c1 have cols: "set required_columns \<subseteq> set (columns t0)"
    by auto
  from validate_data_types_Returned [OF ty] c1 c2
  have c3: "c3 = c1\<lparr>data := Some (typed ev t0)\<rparr>" by auto
  from same_filesD [OF validate_data_types_same_files ty] have f3: "files w3 = files w2" .
  from unchangedD [OF validate_data_ranges_unchanged rg] have c4: "c4 = c3" and f4: "files w4 = files w3"
    by auto
  from unchangedD [OF validate_ecosystem_types_unchanged ec] have c5: "c5 = c4" and f5: "files w5 = files w4"
    by auto
  from unchangedD [OF validate_species_groups_unchanged sp] have c6: "c6 = c5" and f6: "files w6 = files w5"
    by auto
  from unchangedD [OF validate_counties_unchanged co] have c7: "c7 = c6" and f7: "files w7 = files w6"
    by auto
  let ?t1 = "select has_value (typed ev t0)"
  from remove_null_values_Returned [OF nu] c3 c4 c5 c6 c7
  have c8: "c8 = c1\<lparr>data := Some ?t1\<rparr>" by auto
  from same_filesD [OF remove_null_values_same_files nu] have f8: "files w8 = files w7" .
  let ?t2 = "if ra then select (\<lambda>r. \<not> is_aggregate r) ?t1 else ?t1"
  have c9: "c9 = c1\<lparr>data := Some ?t2\<rparr>"
  proof (cases ra)
    case True
    with remove_aggregate_rows_Returned [of c8 w8 "()" c9 w9] ag c8 show ?thesis by auto
  next
    case False
    with ag c8 show ?thesis by (simp add: remove_aggregate_rows_False)
  qed
  from same_filesD [OF remove_aggregate_rows_same_files ag] have f9: "files w9 = files w8" .
  let ?t3 = "cleaned ev ra rd t0"
  from remove_display_columns_Returned [OF di] c9
  have c10: "c10 = c1\<lparr>data := Some ?t3\<rparr>" by (auto simp: cleaned_def Let_def)
  from same_filesD [OF remove_display_columns_same_files di] have f10: "files w10 = files w9" .
  have p: "cleaned_path ev c10 = cleaned_path ev c" by (simp add: c10 c1 cleaned_path_def)
  from export_cleaned_data_result [OF ex] c10 p
  have fx: "f = cleaned_path ev c"
    and c11: "c11 = c1\<lparr>data := Some ?t3, cleaner.cleaned_row_count := length (rows ?t3)\<rparr>"
    and f11: "files w11 = (files w10)(cleaned_path ev c \<mapsto> Csv ?t3)"
    by auto
  from unchangedD [OF generate_summary_statistics_unchanged su]
  have c12: "c12 = c11" and f12: "files w12 = files w11" by auto
  from generate_summary_statistics_Returned [OF su] c11 c1
  have s: "numbers (column ?t3 ''year'') \<noteq> []"
    "summary.raw_row_count s = length (rows t0)"
    "summary.cleaned_row_count s = length (rows ?t3)"
    "rows_removed s = int (length (rows t0)) - int (length (rows ?t3))"
    by auto
  have "files w' = (files w)(cleaned_path ev c \<mapsto> Csv ?t3)"
    using res f12 f11 f10 f9 f8 f7 f6 f5 f4 f3 f2 f1 by simp
  moreover have "c' = c\<lparr>data := Some ?t3, cleaner.raw_row_count := length (rows t0),
            cleaner.cleaned_row_count := length (rows ?t3)\<rparr>"
    using res c12 c11 c1 by simp
  ultimately show ?thesis using rd0 cols res fx s by blast
qed

lemma cell_of_filter_keys:
  "k \<notin> set cs \<Longrightarrow> cell_of (filter (\<lambda>(k, v). k \<notin> set cs) r) k = cell_of r k"
  by (induction r) (auto simp: cell_of_def)

lemma cell_of_without_display:
  assumes "k \<notin> set display_columns" "r \<in> set (rows (without_display t))"
  shows "\<exists>r0 \<in> set (rows t). cell_of r k = cell_of r0 k"
proof -
  let ?cs = "filter (\<lambda>col. col \<in> set (columns t)) display_columns"
  from assms(2) obtain r0 where r0: "r0 \<in> set (rows t)" "r = filter (\<lambda>(k, v). k \<notin> set ?cs) r0"
    by (auto simp: without_display_def drop_columns_def)
  from assms(1) have "k \<notin> set ?cs" by simp
  then have "cell_of r k = cell_of r0 k" unfolding r0(2) by (rule cell_of_filter_keys)
  with r0(1) show ?thesis by blast
qed

lemma length_without_display [simp]: "length (rows (without_display t)) = length (rows t)"
  by (simp add: without_display_def drop_columns_def)

lemma rows_select [simp]: "rows (select P t) = filter P (rows t)"
  by (simp add: select_def)

lemma cleaned_row_origin:
  assumes "r \<in> set (rows (cleaned ev ra rd t0))" "k \<notin> set display_columns"
  shows "\<exists>r0 \<in> set (rows (typed ev t0)). has_value r0 \<and> (ra \<longrightarrow> \<not> is_aggregate r0) \<and>
           cell_of r k = cell_of r0 k"
proof (cases rd)
  case False
  with assms(1) show ?thesis by (auto simp: cleaned_def Let_def split: if_splits)
next
  case True
  let ?t2 = "if ra then select (\<lambda>r. \<not> is_aggregate r) (select has_value (typed ev t0))
             else select has_value (typed ev t0)"
  from True assms(1) have "r \<in> set (rows (without_display ?t2))"
    by (simp add: cleaned_def Let_def)
  from cell_of_without_display [OF assms(2) this]
  obtain r0 where "r0 \<in> set (rows ?t2)" "cell_of r k = cell_of r0 k" by blast
  then show ?thesis by (auto split: if_splits)
qed

lemma has_value_eq: "has_value = (\<lambda>r. cell_of r ''exchange_value'' \<noteq> Null)"
  by (auto simp: fun_eq_iff has_value_def notna_def)

lemma length_cleaned:
  "length (rows (cleaned ev ra rd t0)) =
     length (filter (\<lambda>r. has_value r \<and> (ra \<longrightarrow> \<not> is_aggregate r)) (rows (typed ev t0)))"
  by (auto simp: cleaned_def Let_def intro: arg_cong [where f = length] filter_cong)

lemma length_assign: "length vs = length (rows t) \<Longrightarrow> length (rows (assign c vs t)) = length (rows t)"
  by (simp add: assign_def)

lemma length_column [simp]: "length (column t c) = length (rows t)"
  by (simp add: column_def)

lemma length_typed [simp]: "length (rows (typed ev t)) = length (rows t)"
  by (simp add: typed_def Let_def length_assign)

lemma example_run_False:
  "(case fst (run_cleaning_pipeline ev1 False False (c_init, w_init)) of
      Returned (ok, fo, so) \<Rightarrow> ok \<and> fo = Some out_path | Raised e \<Rightarrow> False)"
  by code_simp

lemma example_run_True:
  "(case fst (run_cleaning_pipeline ev1 True False (c_init, w_init)) of
      Returned (ok, fo, so) \<Rightarrow> ok \<and> fo = Some out_path | Raised e \<Rightarrow> False)"
  by code_simp

lemma example_returns:
  assumes "(case fst (run_cleaning_pipeline ev ra rd s) of
      Returned (ok, fo, so) \<Rightarrow> ok \<and> fo = Some p | Raised e \<Rightarrow> False)"
  shows "\<exists>so c' w'. run_cleaning_pipeline ev ra rd s = (Returned (True, Some p, so), c', w')"
  using assms by (cases "run_cleaning_pipeline ev ra rd s") (auto split: outcome.splits)

text \<open>
  C6: with \<open>remove_aggregates = False\<close>, \<open>remove_aggregate_rows\<close> returns at once: the cleaner,
  hence its table, every row and the row count, is what it was; only a log record is added.
\<close>

theorem remove_aggregate_rows_disabled:
  "remove_aggregate_rows False (c, w) =
     (Returned (), c, info ''Skipping aggregate row removal (remove_aggregates=False)'' [] w)"
  by (simp add: remove_aggregate_rows_def logging_def)

theorem remove_aggregate_rows_disabled_witness:
  "fst (snd (remove_aggregate_rows False (c_loaded, w_init))) = c_loaded \<and>
   data (fst (snd (remove_aggregate_rows False (c_loaded, w_init)))) = Some raw_table"
  using remove_aggregate_rows_disabled [of c_loaded w_init] by (simp add: c_loaded_def)

text \<open>
  C4: \<open>remove_null_values\<close> keeps exactly the rows whose \<open>exchange_value\<close> is not null, and
  when \<open>run_cleaning_pipeline\<close> returns success, the table it exported (which is also the
  cleaner's table) has no row with a null \<open>exchange_value\<close>.
\<close>

theorem no_null_exchange_value_in_output:
  assumes "run_cleaning_pipeline ev ra rd (c, w) = (Returned (True, fo, so), c', w')"
  shows "(\<exists>f t. fo = Some f \<and> files w' f = Some (Csv t) \<and> data c' = Some t \<and>
            (\<forall>r \<in> set (rows t). cell_of r ''exchange_value'' \<noteq> Null)) \<and>
         (\<forall>c0 w0 x c1 w1. remove_null_values (c0, w0) = (Returned x, c1, w1) \<longrightarrow>
            (\<exists>t. data c0 = Some t \<and>
               data c1 = Some (t\<lparr>rows := filter (\<lambda>r. cell_of r ''exchange_value'' \<noteq> Null) (rows t)\<rparr>)))"
proof
  from run_cleaning_pipeline_True [OF assms] obtain t0 where
    fo: "fo = Some (cleaned_path ev c)" and
    d: "data c' = Some (cleaned ev ra rd t0)" and
    f: "files w' = (files w)(cleaned_path ev c \<mapsto> Csv (cleaned ev ra rd t0))"
    by auto
  have "\<forall>r \<in> set (rows (cleaned ev ra rd t0)). cell_of r ''exchange_value'' \<noteq> Null"
  proof
    fix r assume "r \<in> set (rows (cleaned ev ra rd t0))"
    from cleaned_row_origin [OF this, of "''exchange_value''"]
    show "cell_of r ''exchange_value'' \<noteq> Null"
      by (auto simp: display_columns_def has_value_def notna_def)
  qed
  with fo d f show "\<exists>f t. fo = Some f \<and> files w' f = Some (Csv t) \<and> data c' = Some t \<and>
            (\<forall>r \<in> set (rows t). cell_of r ''exchange_value'' \<noteq> Null)"
    by auto
next
  show "\<forall>c0 w0 x c1 w1. remove_null_values (c0, w0) = (Returned x, c1, w1) \<longrightarrow>
            (\<exists>t. data c0 = Some t \<and>
               data c1 = Some (t\<lparr>rows := filter (\<lambda>r. cell_of r ''exchange_value'' \<noteq> Null) (rows t)\<rparr>))"
    by (auto dest!: remove_null_values_Returned simp: select_def has_value_eq)
qed

theorem no_null_exchange_value_in_output_witness:
  "\<exists>t c'. files (snd (snd (run_cleaning_pipeline ev1 False False (c_init, w_init)))) out_path = Some (Csv t) \<and>
     fst (snd (run_cleaning_pipeline ev1 False False (c_init, w_init))) = c' \<and> data c' = Some t \<and>
     list_all (\<lambda>r. cell_of r ''exchange_value'' \<noteq> Null) (rows t)"
proof -
  from example_returns [OF example_run_False] obtain so c' w' where
    run: "run_cleaning_pipeline ev1 False False (c_init, w_init) = (Returned (True, Some out_path, so), c', w')"
    by blast
  from no_null_exchange_value_in_output [OF run] show ?thesis
    by (auto simp: run list_all_iff)
qed

lemma is_aggregate_eq:
  "(\<lambda>r. \<not> is_aggregate r) = (\<lambda>r. \<not> (cell_of r ''species_group'' = Str ''All Species'' \<or>
       cell_of r ''ecosystem_type'' = Str ''All Ecosystems''))"
  by (auto simp: fun_eq_iff is_aggregate_def)

text \<open>
  C5: with \<open>remove_aggregates = True\<close>, \<open>remove_aggregate_rows\<close> keeps exactly the rows that
  match neither sentinel (a row is dropped if either matches), and when
  \<open>run_cleaning_pipeline\<close> returns success the table it exported has no row whose
  \<open>species_group\<close> is All Species and no row whose \<open>ecosystem_type\<close> is All Ecosystems.
\<close>

theorem no_aggregate_rows_in_output:
  assumes "run_cleaning_pipeline ev True rd (c, w) = (Returned (True, fo, so), c', w')"
  shows "(\<exists>f t. fo = Some f \<and> files w' f = Some (Csv t) \<and> data c' = Some t \<and>
            (\<forall>r \<in> set (rows t). cell_of r ''species_group'' \<noteq> Str ''All Species'' \<and>
                                  cell_of r ''ecosystem_type'' \<noteq> Str ''All Ecosystems'')) \<and>
         (\<forall>c0 w0 x c1 w1. remove_aggregate_rows True (c0, w0) = (Returned x, c1, w1) \<longrightarrow>
            (\<exists>t. data c0 = Some t \<and>
               data c1 = Some (t\<lparr>rows := filter (\<lambda>r. \<not> (cell_of r ''species_group'' = Str ''All Species'' \<or>
                   cell_of r ''ecosystem_type'' = Str ''All Ecosystems'')) (rows t)\<rparr>)))"
proof
  from run_cleaning_pipeline_True [OF assms] obtain t0 where
    fo: "fo = Some (cleaned_path ev c)" and
    d: "data c' = Some (cleaned ev True rd t0)" and
    f: "files w' = (files w)(cleaned_path ev c \<mapsto> Csv (cleaned ev True rd t0))"
    by auto
  have "\<forall>r \<in> set (rows (cleaned ev True rd t0)).
          cell_of r ''species_group'' \<noteq> Str ''All Species'' \<and>
          cell_of r ''ecosystem_type'' \<noteq> Str ''All Ecosystems''"
  proof
    fix r assume r: "r \<in> set (rows (cleaned ev True rd t0))"
    from cleaned_row_origin [OF r, of "''species_group''"]
    have 1: "cell_of r ''species_group'' \<noteq> Str ''All Species''"
      by (auto simp: display_columns_def is_aggregate_def)
    from cleaned_row_origin [OF r, of "''ecosystem_type''"]
    have 2: "cell_of r ''ecosystem_type'' \<noteq> Str ''All Ecosystems''"
      by (auto simp: display_columns_def is_aggregate_def)
    from 1 2 show "cell_of r ''species_group'' \<noteq> Str ''All Species'' \<and>
          cell_of r ''ecosystem_type'' \<noteq> Str ''All Ecosystems''" ..
  qed
  with fo d f show "\<exists>f t. fo = Some f \<and> files w' f = Some (Csv t) \<and> data c' = Some t \<and>
            (\<forall>r \<in> set (rows t). cell_of r ''species_group'' \<noteq> Str ''All Species'' \<and>
                                  cell_of r ''ecosystem_type'' \<noteq> Str ''All Ecosystems'')"
    by auto
next
  show "\<forall>c0 w0 x c1 w1. remove_aggregate_rows True (c0, w0) = (Returned x, c1, w1) \<longrightarrow>
            (\<exists>t. data c0 = Some t \<and>
               data c1 = Some (t\<lparr>rows := filter (\<lambda>r. \<not> (cell_of r ''species_group'' = Str ''All Species'' \<or>
                   cell_of r ''ecosystem_type'' = Str ''All Ecosystems'')) (rows t)\<rparr>))"
    by (auto dest!: remove_aggregate_rows_Returned simp: select_def is_aggregate_eq)
qed

theorem no_aggregate_rows_in_output_witness:
  "\<exists>t. files (snd (snd (run_cleaning_pipeline ev1 True False (c_init, w_init)))) out_path = Some (Csv t) \<and>
     list_all (\<lambda>r. cell_of r ''species_group'' \<noteq> Str ''All Species'' \<and>
                   cell_of r ''ecosystem_type'' \<noteq> Str ''All Ecosystems'') (rows t)"
proof -
  from example_returns [OF example_run_True] obtain so c' w' where
    run: "run_cleaning_pipeline ev1 True False (c_init, w_init) = (Returned (True, Some out_path, so), c', w')"
    by blast
  from no_aggregate_rows_in_output [OF run] show ?thesis
    by (auto simp: run list_all_iff)
qed

lemma length_filter_split:
  "length xs = length (filter (\<lambda>x. \<not> P x) xs) + length (filter P xs)"
  by (induction xs) auto

text \<open>
  C8: when \<open>run_cleaning_pipeline\<close> returns success, \<open>raw_row_count\<close> is the number of rows
  read, type validation kept every row, and the difference between \<open>raw_row_count\<close> and
  \<open>cleaned_row_count\<close> (which is also \<open>rows_removed\<close>) is the number of rows of the typed
  table without a value plus, when aggregates are removed, the number of aggregate rows
  among those with a value: the rows dropped by \<open>remove_null_values\<close> and by
  \<open>remove_aggregate_rows\<close>. No other stage changes the count.
\<close>

theorem accounting_identity:
  assumes "run_cleaning_pipeline ev ra rd (c, w) = (Returned (True, fo, Some s), c', w')"
  shows "\<exists>path t0. read_csv ev path = Inr t0 \<and>
     summary.raw_row_count s = length (rows t0) \<and>
     length (rows (typed ev t0)) = length (rows t0) \<and>
     int (summary.raw_row_count s) - int (summary.cleaned_row_count s) =
       int (length (filter (\<lambda>r. \<not> has_value r) (rows (typed ev t0)))) +
       int (if ra then length (filter is_aggregate (filter has_value (rows (typed ev t0)))) else 0) \<and>
     rows_removed s = int (summary.raw_row_count s) - int (summary.cleaned_row_count s)"
proof -
  from run_cleaning_pipeline_True [OF assms] obtain path t0 where
    rd0: "read_csv ev path = Inr t0" and
    raw: "summary.raw_row_count s = length (rows t0)" and
    cl: "summary.cleaned_row_count s = length (rows (cleaned ev ra rd t0))" and
    rr: "rows_removed s = int (length (rows t0)) - int (length (rows (cleaned ev ra rd t0)))"
    by auto
  let ?T = "rows (typed ev t0)"
  have n: "length (rows t0) = length (filter (\<lambda>r. \<not> has_value r) ?T) + length (filter has_value ?T)"
    using length_filter_split [of ?T has_value] by simp
  have a: "length (filter has_value ?T) =
      length (filter is_aggregate (filter has_value ?T)) +
      length (filter (\<lambda>r. \<not> is_aggregate r) (filter has_value ?T))"
    using length_filter_split [of "filter has_value ?T" "\<lambda>r. \<not> is_aggregate r"] by simp
  have c: "length (rows (cleaned ev ra rd t0)) =
      (if ra then length (filter (\<lambda>r. \<not> is_aggregate r) (filter has_value ?T))
       else length (filter has_value ?T))"
    by (simp add: cleaned_def Let_def)
  have "int (length (rows t0)) - int (length (rows (cleaned ev ra rd t0))) =
       int (length (filter (\<lambda>r. \<not> has_value r) ?T)) +
       int (if ra then length (filter is_aggregate (filter has_value ?T)) else 0)"
    using n a c by (cases ra) simp_all
  with rd0 raw cl rr show ?thesis by (intro exI [of _ path] exI [of _ t0]) simp
qed

lemma example_summary_False:
  "(case fst (run_cleaning_pipeline ev1 False False (c_init, w_init)) of
      Returned (ok, fo, Some s) \<Rightarrow> summary.raw_row_count s = 3 \<and> summary.cleaned_row_count s = 2
    | _ \<Rightarrow> False)"
  by code_simp

theorem accounting_identity_witness:
  "\<exists>s. fst (run_cleaning_pipeline ev1 False False (c_init, w_init)) = Returned (True, Some out_path, Some s) \<and>
     summary.raw_row_count s = 3 \<and> summary.cleaned_row_count s = 2 \<and> rows_removed s = 1"
proof -
  from example_returns [OF example_run_False] obtain so c' w' where
    run: "run_cleaning_pipeline ev1 False False (c_init, w_init) = (Returned (True, Some out_path, so), c', w')"
    by blast
  with example_summary_False obtain s where so: "so = Some s"
    and n: "summary.raw_row_count s = 3" "summary.cleaned_row_count s = 2"
    by (auto split: option.splits)
  from accounting_identity [OF run [unfolded so]] n have "rows_removed s = 1" by auto
  with run so n show ?thesis by auto
qed

lemma logged_info [simp]: "logged (info m as w) = logged w @ [(INFO, m, as)]"
  by (simp add: info_def)

lemma logged_warning [simp]: "logged (warning m as w) = logged w @ [(WARNING, m, as)]"
  by (simp add: warning_def)

lemma logged_log_error [simp]: "logged (log_error m as w) = logged w @ [(ERROR, m, as)]"
  by (simp add: log_error_def)

lemma logged_fold_warning [simp]:
  "logged (fold (\<lambda>(m, as). warning m as) xs w) = logged w @ map (\<lambda>(m, as). (WARNING, m, as)) xs"
  by (induction xs arbitrary: w) auto

lemma log_grows_logging: "(\<And>w. \<exists>recs. logged (f w) = logged w @ recs) \<Longrightarrow> keeps log_grows (logging f)"
  by (auto simp: keeps_def logging_def log_grows_def)

lemma log_grows_put_data: "keeps log_grows (put_data t)"
  by (auto simp: keeps_def put_data_def log_grows_def)

lemma grows_info: "\<exists>recs. logged (info m as w) = logged w @ recs" by simp
lemma grows_warning: "\<exists>recs. logged (warning m as w) = logged w @ recs" by simp
lemma grows_log_error: "\<exists>recs. logged (log_error m as w) = logged w @ recs" by simp
lemma grows_fold_warning: "\<exists>recs. logged (fold (\<lambda>(m, as). warning m as) xs w) = logged w @ recs" by simp

lemmas keeps_log_grows =
  keeps_bind [of log_grows] keeps_ret [of log_grows] keeps_lift [of log_grows]
  keeps_get_self [of log_grows] keeps_get_data [of log_grows] keeps_getcol [of log_grows]
  keeps_num_series [of log_grows] log_grows_logging log_grows_put_data keeps_if log_grows_order
  grows_info grows_warning grows_log_error grows_fold_warning

lemma opens:
  assumes "keeps log_grows m" "bind (logging (info msg [])) (\<lambda>_. m) (c, w) = (out, c', w')"
  shows "\<exists>recs. logged w' = logged w @ (INFO, msg, []) # recs"
proof -
  from assms(2) have "m (c, info msg [] w) = (out, c', w')"
    by (simp add: bind_def logging_def)
  with assms(1) have "log_grows (c, info msg [] w) (c', w')"
    by (auto simp: keeps_def)
  then show ?thesis by (auto simp: log_grows_def)
qed

lemma validate_data_types_opens:
  "validate_data_types ev (c, w) = (out, c', w') \<Longrightarrow>
     \<exists>recs. logged w' = logged w @ (INFO, ''Validating data types...'', []) # recs"
  unfolding validate_data_types_def Let_def
  by (erule opens [rotated]) (intro keeps_log_grows)

lemma validate_data_ranges_opens:
  "validate_data_ranges (c, w) = (out, c', w') \<Longrightarrow>
     \<exists>recs. logged w' = logged w @ (INFO, ''Validating data ranges...'', []) # recs"
  unfolding validate_data_ranges_def Let_def
  by (erule opens [rotated]) (intro keeps_log_grows)

lemma validate_ecosystem_types_opens:
  "validate_ecosystem_types (c, w) = (out, c', w') \<Longrightarrow>
     \<exists>recs. logged w' = logged w @ (INFO, ''Validating ecosystem types...'', []) # recs"
  unfolding validate_ecosystem_types_def Let_def
  by (erule opens [rotated]) (intro keeps_log_grows)

lemma validate_species_groups_opens:
  "validate_species_groups (c, w) = (out, c', w') \<Longrightarrow>
     \<exists>recs. logged w' = logged w @ (INFO, ''Validating species groups...'', []) # recs"
  unfolding validate_species_groups_def Let_def
  by (erule opens [rotated]) (intro keeps_log_grows)

lemma validate_counties_opens:
  "validate_counties (c, w) = (out, c', w') \<Longrightarrow>
     \<exists>recs. logged w' = logged w @ (INFO, ''Validating county names...'', []) # recs"
  unfolding validate_counties_def Let_def
  by (erule opens [rotated]) (intro keeps_log_grows)

lemma remove_null_values_opens:
  "remove_null_values (c, w) = (out, c', w') \<Longrightarrow>
     \<exists>recs. logged w' = logged w @ (INFO, ''Removing null/NA exchange values...'', []) # recs"
  unfolding remove_null_values_def Let_def
  by (erule opens [rotated]) (intro keeps_log_grows)

lemma remove_aggregate_rows_opens:
  "remove_aggregate_rows ra (c, w) = (out, c', w') \<Longrightarrow>
     \<exists>recs. logged w' = logged w @
        (INFO, if ra then ''Removing aggregate rows...''
               else ''Skipping aggregate row removal (remove_aggregates=False)'', []) # recs"
proof (cases ra)
  case True
  assume "remove_aggregate_rows ra (c, w) = (out, c', w')"
  with True show ?thesis
    unfolding remove_aggregate_rows_def Let_def
    by simp ((erule opens [rotated]), (intro keeps_log_grows))
next
  case False
  assume "remove_aggregate_rows ra (c, w) = (out, c', w')"
  with False show ?thesis by (auto simp: remove_aggregate_rows_def logging_def)
qed

lemma remove_display_columns_opens:
  "remove_display_columns rd (c, w) = (out, c', w') \<Longrightarrow>
     \<exists>recs. logged w' = logged w @
        (INFO, if rd then ''Removing display-only columns...''
               else ''Keeping display columns (remove_display=False)'', []) # recs"
proof (cases rd)
  case True
  assume "remove_display_columns rd (c, w) = (out, c', w')"
  with True show ?thesis
    unfolding remove_display_columns_def Let_def
    by simp ((erule opens [rotated]), (intro keeps_log_grows))
next
  case False
  assume "remove_display_columns rd (c, w) = (out, c', w')"
  with False show ?thesis by (auto simp: remove_display_columns_def logging_def)
qed

lemma export_cleaned_data_opens:
  "export_cleaned_data ev (c, w) = (out, c', w') \<Longrightarrow>
     \<exists>recs. logged w' = logged w @ (INFO, ''Exporting cleaned commercial data...'', []) # recs"
  unfolding export_cleaned_data_def
  by (auto simp: bind_def logging_def Let_def split: option.splits)

lemma generate_summary_statistics_opens:
  "generate_summary_statistics ev (c, w) = (out, c', w') \<Longrightarrow>
     \<exists>recs. logged w' = logged w @ (INFO, ''Generating summary statistics...'', []) # recs"
  unfolding generate_summary_statistics_def
  by (erule opens [rotated]) (intro keeps_log_grows)



lemma validate_schema_value:
  assumes "data c = Some t"
  shows "fst (validate_schema (c, w)) = Returned (set required_columns \<subseteq> set (columns t))"
  using assms unfolding validate_schema_def
  by (auto simp: bind_def logging_def get_data_def ret_def Let_def filter_empty_conv)




lemma example_load: "fst (load_data ev1 (c_init, start w_init)) = Returned True"
  by code_simp


lemma example_schema_loaded: "set required_columns \<subseteq> set (columns raw_table)"
  by (simp add: raw_table_def)

section \<open>Tables after type validation\<close>

lemma cell_of_set_cell: "cell_of (set_cell c v r) k = (if k = c then v else cell_of r k)"
  by (induction r) (auto simp: cell_of_def)

lemma length_rows_assign:
  "length vs = length (rows t) \<Longrightarrow> length (rows (assign c vs t)) = length (rows t)"
  by (simp add: assign_def)

lemma column_assign:
  assumes "length vs = length (rows t)"
  shows "column (assign c vs t) k = (if k = c then vs else column t k)"
proof -
  have "column (assign c vs t) k =
      map (\<lambda>p. if k = c then snd p else cell_of (fst p) k) (zip (rows t) vs)"
    by (auto simp: column_def assign_def cell_of_set_cell)
  also have "\<dots> = (if k = c then map snd (zip (rows t) vs) else map (\<lambda>r. cell_of r k) (map fst (zip (rows t) vs)))"
    by (simp add: o_def)
  also have "\<dots> = (if k = c then vs else column t k)"
    using assms by (simp add: column_def)
  finally show ?thesis .
qed

lemma columns_assign: "c \<in> set (columns t) \<Longrightarrow> columns (assign c vs t) = columns t"
  by (simp add: assign_def)

lemma column_typed:
  "column (typed ev t) k =
     (if k \<in> {''year'', ''area_id'', ''exchange_value''} then map (to_numeric ev) (column t k)
      else column t k)"
  by (simp add: typed_def Let_def column_assign length_rows_assign)

lemma columns_typed:
  assumes "set required_columns \<subseteq> set (columns t)"
  shows "columns (typed ev t) = columns t"
  using assms by (simp add: typed_def Let_def columns_assign required_columns_def)

lemma not_has_str_to_numeric: "\<not> has_str (map (to_numeric ev) xs)"
  by (induction xs) (auto simp: has_str_def to_numeric_def split: cell.splits option.splits)

lemma has_str_iff: "has_str xs \<longleftrightarrow> (\<exists>s. Str s \<in> set xs)"
  by (induction xs) (auto simp: has_str_def split: cell.splits)

lemma well_typed_typed:
  assumes "set required_columns \<subseteq> set (columns t)"
  shows "well_typed (typed ev t)"
  using assms by (simp add: well_typed_def columns_typed column_typed not_has_str_to_numeric)

lemma column_select: "column (select P t) k = map (\<lambda>r. cell_of r k) (filter P (rows t))"
  by (simp add: column_def select_def)

lemma columns_select [simp]: "columns (select P t) = columns t"
  by (simp add: select_def)

lemma well_typed_select: "well_typed t \<Longrightarrow> well_typed (select P t)"
  by (auto simp: well_typed_def has_str_iff column_select column_def)

lemma required_not_display: "k \<in> set required_columns \<Longrightarrow> k \<notin> set display_columns"
  by (auto simp: required_columns_def display_columns_def)

lemma cell_of_filter_pred:
  "P k \<Longrightarrow> cell_of (filter (\<lambda>(k, v). P k) r) k = cell_of r k"
  by (induction r) (auto simp: cell_of_def)

lemma column_without_display:
  "k \<notin> set display_columns \<Longrightarrow> column (without_display t) k = column t k"
  by (simp add: column_def without_display_def drop_columns_def cell_of_filter_pred o_def)

lemma columns_without_display:
  "k \<notin> set display_columns \<Longrightarrow> k \<in> set (columns (without_display t)) \<longleftrightarrow> k \<in> set (columns t)"
  by (auto simp: without_display_def drop_columns_def)

lemma well_typed_without_display:
  assumes "well_typed t"
  shows "well_typed (without_display t)"
proof -
  have "k \<in> set (columns (without_display t))" if "k \<in> set required_columns" for k
    using that assms by (auto simp: columns_without_display required_not_display well_typed_def)
  moreover have "column (without_display t) k = column t k"
    if "k \<in> {''year'', ''area_id'', ''exchange_value''}" for k
    using that by (auto simp: column_without_display display_columns_def)
  ultimately show ?thesis using assms by (auto simp: well_typed_def)
qed

lemma well_typed_cleaned:
  "set required_columns \<subseteq> set (columns t0) \<Longrightarrow> well_typed (cleaned ev ra rd t0)"
  by (simp add: cleaned_def Let_def well_typed_typed well_typed_select well_typed_without_display)

section \<open>Stages that return\<close>

lemmas steps = bind_def ret_def lift_def logging_def get_data_def put_data_def get_self_def
  getcol_def num_series_def

lemma validate_data_types_returns:
  assumes "data c = Some t" "set required_columns \<subseteq> set (columns t)" "castable ev t"
  shows "\<exists>w'. validate_data_types ev (c, w) = (Returned (), c\<lparr>data := Some (typed ev t)\<rparr>, w')"
  using assms unfolding validate_data_types_def castable_def
  by (simp add: steps astype_Int64_def Let_def typed_def columns_assign column_assign
        length_rows_assign required_columns_def)

lemma validate_data_ranges_returns:
  assumes "data c = Some t" "well_typed t"
  shows "\<exists>w'. validate_data_ranges (c, w) = (Returned True, c, w')"
  using assms unfolding validate_data_ranges_def well_typed_def
  by (simp add: steps Let_def required_columns_def)

lemma py_insert_strs:
  "\<forall>y \<in> set ys. \<exists>s. y = Str s \<Longrightarrow>
     \<exists>zs. py_insert (Str a) ys = Inr zs \<and> (\<forall>z \<in> set zs. \<exists>s. z = Str s)"
  by (induction ys) (auto split: sum.splits bool.splits)

lemma py_sorted_strs:
  "\<forall>x \<in> set xs. \<exists>s. x = Str s \<Longrightarrow>
     \<exists>ys. py_sorted xs = Inr ys \<and> (\<forall>y \<in> set ys. \<exists>s. y = Str s)"
proof (induction xs)
  case Nil
  then show ?case by simp
next
  case (Cons x xs)
  then obtain ys where ys: "py_sorted xs = Inr ys" "\<forall>y \<in> set ys. \<exists>s. y = Str s" by auto
  from Cons.prems obtain a where "x = Str a" by auto
  with py_insert_strs [OF ys(2), of a] ys(1) show ?case by auto
qed

lemma py_sorted_expected:
  assumes "filter (\<lambda>e. e \<notin> set (map Str expected)) xs = []"
  shows "\<exists>ys. py_sorted xs = Inr ys"
proof -
  from assms have "\<forall>x \<in> set xs. \<exists>s. x = Str s"
    by (auto simp: filter_empty_conv)
  from py_sorted_strs [OF this] show ?thesis by blast
qed

lemma validate_ecosystem_types_returns:
  assumes "data c = Some t" "''ecosystem_type'' \<in> set (columns t)"
  shows "\<exists>w'. validate_ecosystem_types (c, w) = (Returned (), c, w')"
proof (cases "filter (\<lambda>e. e \<notin> set (map Str expected_ecosystems)) (unique (column t ''ecosystem_type'')) = []")
  case True
  from py_sorted_expected [OF True] obtain ys where "py_sorted (unique (column t ''ecosystem_type'')) = Inr ys" ..
  with True assms show ?thesis unfolding validate_ecosystem_types_def by (simp add: steps Let_def)
next
  case False
  with assms show ?thesis unfolding validate_ecosystem_types_def by (simp add: steps Let_def)
qed

lemma validate_species_groups_returns:
  assumes "data c = Some t" "''species_group'' \<in> set (columns t)"
  shows "\<exists>w'. validate_species_groups (c, w) = (Returned (), c, w')"
proof (cases "filter (\<lambda>e. e \<notin> set (map Str expected_species)) (unique (column t ''species_group'')) = []")
  case True
  from py_sorted_expected [OF True] obtain ys where "py_sorted (unique (column t ''species_group'')) = Inr ys" ..
  with True assms show ?thesis unfolding validate_species_groups_def by (simp add: steps Let_def)
next
  case False
  with assms show ?thesis unfolding validate_species_groups_def by (simp add: steps Let_def)
qed

lemma validate_counties_returns:
  assumes "data c = Some t" "''county'' \<in> set (columns t)"
  shows "\<exists>w'. validate_counties (c, w) = (Returned (), c, w')"
proof (cases "filter (\<lambda>e. e \<notin> set (map Str expected_counties)) (unique (column t ''county'')) = []")
  case True
  from py_sorted_expected [OF True] obtain ys where "py_sorted (unique (column t ''county'')) = Inr ys" ..
  with True assms show ?thesis unfolding validate_counties_def by (simp add: steps Let_def)
next
  case False
  with assms show ?thesis unfolding validate_counties_def by (simp add: steps Let_def)
qed

lemma notna_eq_has_value: "(\<lambda>r. notna (cell_of r ''exchange_value'')) = has_value"
  by (simp add: fun_eq_iff has_value_def)

lemma remove_null_values_returns:
  assumes "data c = Some t" "''exchange_value'' \<in> set (columns t)"
  shows "\<exists>w'. remove_null_values (c, w) = (Returned (), c\<lparr>data := Some (select has_value t)\<rparr>, w')"
  using assms unfolding remove_null_values_def
  by (simp add: steps Let_def notna_eq_has_value)

lemma remove_aggregate_rows_returns:
  assumes "data c = Some t" "''species_group'' \<in> set (columns t)" "''ecosystem_type'' \<in> set (columns t)"
  shows "\<exists>w'. remove_aggregate_rows ra (c, w) =
     (Returned (), c\<lparr>data := Some (if ra then select (\<lambda>r. \<not> is_aggregate r) t else t)\<rparr>, w')"
  using assms unfolding remove_aggregate_rows_def
  by (simp add: steps Let_def is_aggregate_eq select_select isin_single select_def)

lemma remove_display_columns_returns:
  assumes "data c = Some t"
  shows "\<exists>w'. remove_display_columns rd (c, w) =
     (Returned (), c\<lparr>data := Some (if rd then without_display t else t)\<rparr>, w')"
  using assms unfolding remove_display_columns_def
  by (simp add: steps Let_def without_display_def drop_columns_Nil)

lemma generate_summary_statistics_raises:
  assumes "data c = Some t" "well_typed t" "numbers (column t ''year'') = []"
  shows "\<exists>w'. generate_summary_statistics ev (c, w) =
     (Raised (TypeError ''int() argument must be a real number, not NAType''), c, w')"
  using assms unfolding generate_summary_statistics_def well_typed_def
  by (simp add: steps int_min_def required_columns_def)

lemma export_cleaned_data_returns:
  assumes "data c = Some t"
  shows "\<exists>w'. export_cleaned_data ev (c, w) =
           (Returned (cleaned_path ev c), c\<lparr>cleaner.cleaned_row_count := length (rows t)\<rparr>, w') \<and>
         files w' = (files w)(cleaned_path ev c \<mapsto> Csv t)"
  using assms unfolding export_cleaned_data_def cleaned_path_def
  by (simp add: steps Let_def info_def)

lemma validate_schema_returns:
  assumes "data c = Some t"
  shows "\<exists>w'. validate_schema (c, w) = (Returned (set required_columns \<subseteq> set (columns t)), c, w')"
proof -
  obtain out c' w' where v: "validate_schema (c, w) = (out, c', w')"
    by (cases "validate_schema (c, w)") auto
  from validate_schema_value [OF assms, of w] v unchangedD [OF validate_schema_unchanged v]
  show ?thesis by auto
qed

section \<open>A run whose cleaned table has no year\<close>

lemma run_raises_without_year:
  assumes l: "load_data ev (c, start w) = (Returned True, c1, w1)"
    and d: "data c1 = Some t0"
    and cols: "set required_columns \<subseteq> set (columns t0)"
    and cast: "castable ev t0"
    and e: "numbers (column (cleaned ev ra rd t0) ''year'') = []"
  shows "\<exists>c' w'. run_cleaning_pipeline ev ra rd (c, w) =
           (Raised (TypeError ''int() argument must be a real number, not NAType''), c', w') \<and>
         data c' = Some (cleaned ev ra rd t0) \<and>
         files w' = (files w)(cleaned_path ev c \<mapsto> Csv (cleaned ev ra rd t0))"
proof -
  let ?T1 = "typed ev t0"
  let ?T2 = "select has_value ?T1"
  let ?T3 = "if ra then select (\<lambda>r. \<not> is_aggregate r) ?T2 else ?T2"
  let ?T = "cleaned ev ra rd t0"
  have T: "?T = (if rd then without_display ?T3 else ?T3)" by (simp add: cleaned_def Let_def)
  have wt1: "well_typed ?T1" using cols by (rule well_typed_typed)
  then have wt2: "well_typed ?T2" by (rule well_typed_select)
  then have wt3: "well_typed ?T3" by (simp add: well_typed_select)
  have wt: "well_typed ?T" using cols by (rule well_typed_cleaned)
  have req: "k \<in> set (columns t')" if "well_typed t'" "k \<in> set required_columns" for t' k
    using that by (auto simp: well_typed_def)
  note mem = required_columns_def
  from load_data_result [OF l] have f1: "files w1 = files w"
    and od: "cleaner.output_dir c1 = cleaner.output_dir c" by auto
  from validate_schema_returns [OF d, of w1] cols obtain w2
    where v: "validate_schema (c1, w1) = (Returned True, c1, w2)" by auto
  let ?c3 = "c1\<lparr>data := Some ?T1\<rparr>"
  from validate_data_types_returns [OF d cols cast, of w2] obtain w3
    where ty: "validate_data_types ev (c1, w2) = (Returned (), ?c3, w3)" by auto
  have d3: "data ?c3 = Some ?T1" by simp
  from validate_data_ranges_returns [OF d3 wt1, of w3] obtain w4
    where rg: "validate_data_ranges (?c3, w3) = (Returned True, ?c3, w4)" by auto
  from validate_ecosystem_types_returns [OF d3, of w4] req [OF wt1] obtain w5
    where ec: "validate_ecosystem_types (?c3, w4) = (Returned (), ?c3, w5)" by (auto simp: mem)
  from validate_species_groups_returns [OF d3, of w5] req [OF wt1] obtain w6
    where sp: "validate_species_groups (?c3, w5) = (Returned (), ?c3, w6)" by (auto simp: mem)
  from validate_counties_returns [OF d3, of w6] req [OF wt1] obtain w7
    where co: "validate_counties (?c3, w6) = (Returned (), ?c3, w7)" by (auto simp: mem)
  let ?c8 = "c1\<lparr>data := Some ?T2\<rparr>"
  from remove_null_values_returns [OF d3, of w7] req [OF wt1] obtain w8
    where nu: "remove_null_values (?c3, w7) = (Returned (), ?c8, w8)" by (auto simp: mem)
  have d8: "data ?c8 = Some ?T2" by simp
  let ?c9 = "c1\<lparr>data := Some ?T3\<rparr>"
  from remove_aggregate_rows_returns [OF d8, of ra w8] req [OF wt2] obtain w9
    where ag: "remove_aggregate_rows ra (?c8, w8) = (Returned (), ?c9, w9)" by (auto simp: mem)
  have d9: "data ?c9 = Some ?T3" by simp
  let ?c10 = "c1\<lparr>data := Some ?T\<rparr>"
  from remove_display_columns_returns [OF d9, of rd w9] obtain w10
    where di: "remove_display_columns rd (?c9, w9) = (Returned (), ?c10, w10)" by (auto simp: T)
  have d10: "data ?c10 = Some ?T" by simp
  let ?c11 = "?c10\<lparr>cleaner.cleaned_row_count := length (rows ?T)\<rparr>"
  have p: "cleaned_path ev ?c10 = cleaned_path ev c" using od by (simp add: cleaned_path_def)
  from export_cleaned_data_returns [OF d10, of ev w10] p obtain w11
    where ex: "export_cleaned_data ev (?c10, w10) = (Returned (cleaned_path ev c), ?c11, w11)"
      and f11: "files w11 = (files w10)(cleaned_path ev c \<mapsto> Csv ?T)" by auto
  have d11: "data ?c11 = Some ?T" by simp
  from generate_summary_statistics_raises [OF d11 wt e, of ev w11] obtain w12
    where su: "generate_summary_statistics ev (?c11, w11) =
      (Raised (TypeError ''int() argument must be a real number, not NAType''), ?c11, w12)" by auto
  have run: "run_cleaning_pipeline ev ra rd (c, w) =
      (Raised (TypeError ''int() argument must be a real number, not NAType''), ?c11, w12)"
    unfolding run_cleaning_pipeline_def
    by (simp add: bind_def logging_def ret_def l [unfolded start_def] v ty rg ec sp co nu ag di ex su)
  have "files w12 = (files w)(cleaned_path ev c \<mapsto> Csv ?T)"
    using f11 f1
      unchangedD [OF validate_schema_unchanged v]
      same_filesD [OF validate_data_types_same_files ty]
      unchangedD [OF validate_data_ranges_unchanged rg]
      unchangedD [OF validate_ecosystem_types_unchanged ec]
      unchangedD [OF validate_species_groups_unchanged sp]
      unchangedD [OF validate_counties_unchanged co]
      same_filesD [OF remove_null_values_same_files nu]
      same_filesD [OF remove_aggregate_rows_same_files ag]
      same_filesD [OF remove_display_columns_same_files di]
      unchangedD [OF generate_summary_statistics_unchanged su]
    by simp
  with run d11 show ?thesis by blast
qed

lemma cleaned_all_null:
  assumes "\<forall>r \<in> set (rows t0). to_numeric ev (cell_of r ''exchange_value'') = Null"
  shows "rows (cleaned ev ra rd t0) = []"
proof -
  have "cell_of r ''exchange_value'' = Null" if "r \<in> set (rows (typed ev t0))" for r
  proof -
    from that have "cell_of r ''exchange_value'' \<in> set (column (typed ev t0) ''exchange_value'')"
      by (simp add: column_def)
    then have "cell_of r ''exchange_value'' \<in> to_numeric ev ` set (column t0 ''exchange_value'')"
      by (simp add: column_typed)
    with assms show ?thesis by (auto simp: column_def)
  qed
  then have "filter has_value (rows (typed ev t0)) = []"
    by (auto simp: filter_empty_conv has_value_def notna_def)
  then show ?thesis
    by (simp add: cleaned_def Let_def without_display_def drop_columns_def)
qed

text \<open>
  C10: a run returns success only with a table that has a row (indeed a year) left; when
  the data was loaded, has the required columns and passes the integer casts, and cleaning
  removes every row, \<open>run_cleaning_pipeline\<close> raises the \<open>TypeError\<close> of \<^verbatim>\<open>int(pd.NA)\<close> in
  \<open>generate_summary_statistics\<close>, after the empty cleaned file has been written; it does
  not return a triple. All \<open>exchange_value\<close>s null is such a case.
\<close>

theorem summary_needs_a_surviving_row:
  "(run_cleaning_pipeline ev ra rd (c, w) = (Returned (True, fo, so), c', w') \<longrightarrow>
      (\<exists>t. data c' = Some t \<and> rows t \<noteq> [] \<and> numbers (column t ''year'') \<noteq> [])) \<and>
   (load_data ev (c, start w) = (Returned True, c1, w1) \<and> data c1 = Some t0 \<and>
    set required_columns \<subseteq> set (columns t0) \<and> castable ev t0 \<and>
    rows (cleaned ev ra rd t0) = [] \<longrightarrow>
      (\<exists>c' w'. run_cleaning_pipeline ev ra rd (c, w) =
           (Raised (TypeError ''int() argument must be a real number, not NAType''), c', w') \<and>
         files w' (cleaned_path ev c) = Some (Csv (cleaned ev ra rd t0)))) \<and>
   ((\<forall>r \<in> set (rows t0). to_numeric ev (cell_of r ''exchange_value'') = Null) \<longrightarrow>
      rows (cleaned ev ra rd t0) = [])"
proof (intro conjI impI)
  assume "run_cleaning_pipeline ev ra rd (c, w) = (Returned (True, fo, so), c', w')"
  from run_cleaning_pipeline_True [OF this] obtain t0 where
    d: "data c' = Some (cleaned ev ra rd t0)" and n: "numbers (column (cleaned ev ra rd t0) ''year'') \<noteq> []"
    by auto
  from n have "rows (cleaned ev ra rd t0) \<noteq> []" by (auto simp: column_def numbers_def)
  with d n show "\<exists>t. data c' = Some t \<and> rows t \<noteq> [] \<and> numbers (column t ''year'') \<noteq> []" by blast
next
  assume a: "load_data ev (c, start w) = (Returned True, c1, w1) \<and> data c1 = Some t0 \<and>
    set required_columns \<subseteq> set (columns t0) \<and> castable ev t0 \<and> rows (cleaned ev ra rd t0) = []"
  then have "numbers (column (cleaned ev ra rd t0) ''year'') = []"
    by (simp add: column_def numbers_def)
  with a run_raises_without_year [of ev c w c1 w1 t0 ra rd]
  show "\<exists>c' w'. run_cleaning_pipeline ev ra rd (c, w) =
           (Raised (TypeError ''int() argument must be a real number, not NAType''), c', w') \<and>
         files w' (cleaned_path ev c) = Some (Csv (cleaned ev ra rd t0))"
    by auto
next
  assume "\<forall>r \<in> set (rows t0). to_numeric ev (cell_of r ''exchange_value'') = Null"
  then show "rows (cleaned ev ra rd t0) = []" by (rule cleaned_all_null)
qed

lemma example_load_null: "fst (load_data ev_null (c_init, start w_init)) = Returned True"
  by code_simp

lemma example_data_null:
  "data (fst (snd (load_data ev_null (c_init, start w_init)))) = Some table_null"
  by code_simp

lemma example_castable_null: "castable ev_null table_null"
  by code_simp

lemma example_all_null:
  "list_all (\<lambda>r. to_numeric ev_null (cell_of r ''exchange_value'') = Null) (rows table_null)"
  by code_simp

theorem summary_needs_a_surviving_row_witness:
  "(\<exists>t. data (fst (snd (run_cleaning_pipeline ev1 True False (c_init, w_init)))) = Some t \<and> rows t \<noteq> []) \<and>
   fst (run_cleaning_pipeline ev_null True False (c_init, w_init)) =
     Raised (TypeError ''int() argument must be a real number, not NAType'') \<and>
   files (snd (snd (run_cleaning_pipeline ev_null True False (c_init, w_init)))) out_path =
     Some (Csv (cleaned ev_null True False table_null)) \<and>
   rows (cleaned ev_null True False table_null) = []"
proof -
  from example_returns [OF example_run_True] obtain so c' w' where
    run: "run_cleaning_pipeline ev1 True False (c_init, w_init) = (Returned (True, Some out_path, so), c', w')"
    by blast
  from summary_needs_a_surviving_row [THEN conjunct1, THEN mp, OF run]
  have 1: "\<exists>t. data c' = Some t \<and> rows t \<noteq> []" by blast
  have "\<forall>r \<in> set (rows table_null). to_numeric ev_null (cell_of r ''exchange_value'') = Null"
    using example_all_null by (simp add: list_all_iff)
  from summary_needs_a_surviving_row [THEN conjunct2, THEN conjunct2, THEN mp, OF this]
  have 3: "rows (cleaned ev_null True False table_null) = []" .
  let ?L = "load_data ev_null (c_init, start w_init)"
  have l: "?L = (Returned True, fst (snd ?L), snd (snd ?L))"
    using example_load_null by (simp add: prod_eq_iff)
  have cols: "set required_columns \<subseteq> set (columns table_null)" by (simp add: table_null_def)
  have p: "cleaned_path ev_null c_init = out_path" by code_simp
  have "load_data ev_null (c_init, start w_init) = (Returned True, fst (snd ?L), snd (snd ?L)) \<and>
    data (fst (snd ?L)) = Some table_null \<and> set required_columns \<subseteq> set (columns table_null) \<and>
    castable ev_null table_null \<and> rows (cleaned ev_null True False table_null) = []"
    using l example_data_null cols example_castable_null 3 by simp
  from summary_needs_a_surviving_row [THEN conjunct2, THEN conjunct1, THEN mp, OF this]
  have 2: "\<exists>c' w'. run_cleaning_pipeline ev_null True False (c_init, w_init) =
           (Raised (TypeError ''int() argument must be a real number, not NAType''), c', w') \<and>
         files w' out_path = Some (Csv (cleaned ev_null True False table_null))"
    by (simp add: p)
  from 1 2 3 run show ?thesis by auto
qed

lemma validate_data_ranges_True:
  "validate_data_ranges (c, w) = (Returned b, c', w') \<Longrightarrow> b"
  unfolding validate_data_ranges_def Let_def
  by (auto simp: returned)

lemma validate_data_ranges_warns:
  assumes "validate_data_ranges (c, w) = (Returned b, c', w')" "data c = Some t"
    "list_ex out_of_range (column t ''year'')"
  shows "out_of_range_warning t \<in> set (logged w')"
proof -
  from assms(3) have cond: "list_ex (\<lambda>y. lt_num y 1997) (column t ''year'') \<or>
      list_ex (\<lambda>y. gt_num y 2021) (column t ''year'')"
    by (auto simp: list_ex_iff out_of_range_def)
  from assms(1,2) cond show ?thesis
    unfolding validate_data_ranges_def Let_def out_of_range_warning_def
    by (auto simp: returned)
qed

lemma cleaned_keeps_row:
  assumes "r \<in> set (rows (typed ev t0))" "has_value r" "ra \<longrightarrow> \<not> is_aggregate r"
  shows "\<exists>r' \<in> set (rows (cleaned ev ra rd t0)).
           (\<not> rd \<longrightarrow> r' = r) \<and> (\<forall>k. k \<notin> set display_columns \<longrightarrow> cell_of r' k = cell_of r k)"
proof -
  let ?t2 = "if ra then select (\<lambda>r. \<not> is_aggregate r) (select has_value (typed ev t0))
             else select has_value (typed ev t0)"
  from assms have r2: "r \<in> set (rows ?t2)" by auto
  show ?thesis
  proof (cases rd)
    case False
    with r2 show ?thesis by (auto simp: cleaned_def Let_def)
  next
    case True
    let ?cs = "filter (\<lambda>col. col \<in> set (columns ?t2)) display_columns"
    let ?r' = "filter (\<lambda>(k, v). k \<notin> set ?cs) r"
    from r2 have m: "?r' \<in> set (rows (without_display ?t2))"
      unfolding without_display_def drop_columns_def by (simp del: set_filter)
    have q: "cleaned ev ra rd t0 = without_display ?t2"
      using True by (simp add: cleaned_def Let_def)
    show ?thesis unfolding q by (rule bexI [OF _ m]) (simp add: True cell_of_filter_pred)
  qed
qed

lemma keepsD: "keeps R m \<Longrightarrow> m s = (out, s') \<Longrightarrow> R s s'"
  by (auto simp: keeps_def)

lemma json_kept_order [simp]: "transp json_kept" "reflp json_kept"
  by (auto simp: transp_def reflp_def json_kept_def)

lemma same_files_json_kept: "keeps same_files m \<Longrightarrow> keeps json_kept m"
  by (auto simp: keeps_def same_files_def json_kept_def)

lemma unchanged_json_kept: "keeps unchanged m \<Longrightarrow> keeps json_kept m"
  by (auto simp: keeps_def unchanged_def json_kept_def)

lemma json_kept_logging:
  "(\<And>w. files (f w) = files w) \<Longrightarrow> keeps json_kept (logging f)"
  by (auto simp: keeps_def logging_def json_kept_def)

lemma json_kept_load_data: "keeps json_kept (load_data ev)"
  unfolding keeps_def json_kept_def
  by (auto dest!: load_data_result)

lemma json_kept_export: "keeps json_kept (export_cleaned_data ev)"
  unfolding keeps_def json_kept_def
  by (auto dest!: export_cleaned_data_result split: if_splits)

lemmas keeps_json_kept =
  keeps_bind [of json_kept] keeps_ret [of json_kept] keeps_lift [of json_kept]
  keeps_get_self [of json_kept] json_kept_logging keeps_if json_kept_order

lemma json_kept_run_cleaning_pipeline: "keeps json_kept (run_cleaning_pipeline ev ra rd)"
  unfolding run_cleaning_pipeline_def
  by (intro keeps_json_kept files_info json_kept_load_data json_kept_export
        unchanged_json_kept [OF validate_schema_unchanged]
        same_files_json_kept [OF validate_data_types_same_files]
        unchanged_json_kept [OF validate_data_ranges_unchanged]
        unchanged_json_kept [OF validate_ecosystem_types_unchanged]
        unchanged_json_kept [OF validate_species_groups_unchanged]
        unchanged_json_kept [OF validate_counties_unchanged]
        same_files_json_kept [OF remove_null_values_same_files]
        same_files_json_kept [OF remove_aggregate_rows_same_files]
        same_files_json_kept [OF remove_display_columns_same_files]
        unchanged_json_kept [OF generate_summary_statistics_unchanged])

lemma json_kept_on_commercial_cleaner:
  "keeps json_kept m \<Longrightarrow> keeps json_kept (on_commercial_cleaner m)"
  unfolding keeps_def json_kept_def on_commercial_cleaner_def
  by (auto split: prod.splits)

lemma json_kept_set_commercial: "keeps json_kept (set_commercial r)"
  by (auto simp: keeps_def json_kept_def set_commercial_def)

lemma json_kept_set_non_commercial: "keeps json_kept (set_non_commercial r)"
  by (auto simp: keeps_def json_kept_def set_non_commercial_def)

lemma json_kept_case_prod: "(\<And>a b c. keeps R (f a b c)) \<Longrightarrow> keeps R (case x of (a, b, c) \<Rightarrow> f a b c)"
  by (cases x) auto

lemma json_kept_run_commercial_cleaning: "keeps json_kept (run_commercial_cleaning ev ra rd)"
  unfolding run_commercial_cleaning_def
  by (intro keeps_json_kept files_info json_kept_on_commercial_cleaner
        json_kept_run_cleaning_pipeline json_kept_case_prod json_kept_set_commercial)

lemma files_fold_write_csv:
  "files (fold (\<lambda>(path, t). write_file path (Csv t)) csvs w) p = Some (Json x) \<Longrightarrow>
     files w p = Some (Json x)"
proof (induction csvs arbitrary: w)
  case Nil
  then show ?case by simp
next
  case (Cons a csvs)
  obtain path t where a: "a = (path, t)" by (cases a)
  from Cons.prems have "files (fold (\<lambda>(path, t). write_file path (Csv t)) csvs (write_file path (Csv t) w)) p
      = Some (Json x)" by (simp add: a)
  from Cons.IH [OF this] show ?case by (auto simp: write_file_def split: if_splits)
qed

lemma json_kept_on_noncommercial_cleaner: "keeps json_kept (on_noncommercial_cleaner run)"
  unfolding keeps_def json_kept_def on_noncommercial_cleaner_def
  by (auto split: prod.splits dest!: files_fold_write_csv)

lemma json_kept_run_noncommercial_cleaning: "keeps json_kept (run_noncommercial_cleaning nc ra rd)"
  unfolding run_noncommercial_cleaning_def
  by (intro keeps_json_kept files_info json_kept_on_noncommercial_cleaner
        json_kept_case_prod json_kept_set_non_commercial)

lemma json_kept_get_results: "keeps json_kept get_results"
  by (auto simp: keeps_def json_kept_def get_results_def)

lemma json_kept_report_common: "keeps json_kept (report_common s)"
  unfolding report_common_def by (intro keeps_json_kept files_info)

lemma json_kept_case_result:
  assumes "\<And>f s. keeps R (m1 f s)" "keeps R m2"
  shows "keeps R (case x of Some (Succeeded f s) \<Rightarrow> m1 f s | _ \<Rightarrow> m2)"
  using assms by (auto split: option.splits result.splits)

lemma json_kept_generate_pipeline_report: "keeps json_kept generate_pipeline_report"
  unfolding generate_pipeline_report_def
  by (intro keeps_json_kept files_info json_kept_get_results json_kept_case_result
        json_kept_report_common)

lemma json_kept_setup_logging: "keeps json_kept (setup_logging ev)"
  unfolding setup_logging_def Let_def
  by (auto simp: keeps_def json_kept_def bind_def logging_def write_file_def split: if_splits)

lemma json_kept_run_full_pipeline: "keeps json_kept (run_full_pipeline ev nc ra rd)"
  unfolding run_full_pipeline_def Let_def
  by (intro keeps_json_kept files_info json_kept_setup_logging json_kept_run_commercial_cleaning
        json_kept_run_noncommercial_cleaning json_kept_generate_pipeline_report)

lemma json_kept_print: "keeps json_kept (print line)"
  by (auto simp: keeps_def json_kept_def print_def)

lemma json_kept_main:
  assumes "main ev nc w = (out, p', w')"
  shows "files w' path = Some (Json x) \<longrightarrow> files w path = Some (Json x)"
proof -
  have "keeps json_kept (bind (run_full_pipeline ev nc False False)
       (\<lambda>success. bind
          (if success
           then bind (print ([CHR 0x0A] @ check_mark @ '' Data cleaning completed successfully!''))
                  (\<lambda>_. bind (print ''  Cleaned files saved to: data/cleaned/'')
                  (\<lambda>_. print ''  Summary JSON saved to: data/cleaned/''))
           else print ([CHR 0x0A] @ ballot_x
                        @ '' Data cleaning encountered errors. Check logs for details.''))
       (\<lambda>_. ret success)))"
    by (intro keeps_json_kept json_kept_run_full_pipeline json_kept_print)
  from keepsD [OF this assms [unfolded main_def]] show ?thesis
    by (auto simp: json_kept_def)
qed

lemma bind_if_True:
  assumes "bind m (\<lambda>success. bind (if success then A else B) (\<lambda>_. ret success)) s = (Returned True, s')"
  shows "\<exists>s1 x. m s = (Returned True, s1) \<and> A s1 = (Returned x, s')"
  using assms by (auto simp: bind_def ret_def split: prod.splits outcome.splits if_splits)

lemma main_message:
  assumes "main ev nc w = (Returned True, p', w')"
  shows "''  Summary JSON saved to: data/cleaned/'' \<in> set (stdout w')"
proof -
  from bind_if_True [OF assms [unfolded main_def]] obtain p1 w1 x where
    "bind (print ([CHR 0x0A] @ check_mark @ '' Data cleaning completed successfully!''))
       (\<lambda>_. bind (print ''  Cleaned files saved to: data/cleaned/'')
       (\<lambda>_. print ''  Summary JSON saved to: data/cleaned/'')) (p1, w1) = (Returned x, p', w')"
    by auto
  then show ?thesis by (auto simp: bind_def print_def)
qed

text \<open>
  C1 fails on the code: \<open>run_full_pipeline\<close> runs the two cleaners and logs the report, and
  never calls \<open>generate_combined_summary\<close> or \<open>export_summary_json\<close>. Whatever the cleaners
  did, a file that holds a combined summary after the call (or after \<open>main\<close>) was there
  before it; and when \<open>main\<close> succeeds it prints that the summary was saved.
\<close>

theorem run_full_pipeline_writes_no_summary:
  "(run_full_pipeline ev nc ra rd (p, w) = (out, p', w') \<longrightarrow>
      (\<forall>path x. files w' path = Some (Json x) \<longrightarrow> files w path = Some (Json x))) \<and>
   (main ev nc w = (out, p', w') \<longrightarrow>
      (\<forall>path x. files w' path = Some (Json x) \<longrightarrow> files w path = Some (Json x))) \<and>
   (main ev nc w = (Returned True, p', w') \<longrightarrow>
      ''  Summary JSON saved to: data/cleaned/'' \<in> set (stdout w'))"
proof (intro conjI impI allI)
  fix path x
  assume "run_full_pipeline ev nc ra rd (p, w) = (out, p', w')" "files w' path = Some (Json x)"
  with keepsD [OF json_kept_run_full_pipeline, of ev nc ra rd "(p, w)" out "(p', w')"]
  show "files w path = Some (Json x)" by (auto simp: json_kept_def)
next
  fix path x
  assume "main ev nc w = (out, p', w')" "files w' path = Some (Json x)"
  with json_kept_main show "files w path = Some (Json x)" by blast
next
  assume "main ev nc w = (Returned True, p', w')"
  then show "''  Summary JSON saved to: data/cleaned/'' \<in> set (stdout w')" by (rule main_message)
qed

lemma example_full_run: "fst (run_full_pipeline ev1 nc_ok False False (p_init, w_init)) = Returned True"
  by code_simp

lemma example_main: "fst (main ev1 nc_ok w_init) = Returned True"
  by code_simp

theorem run_full_pipeline_writes_no_summary_witness:
  "fst (run_full_pipeline ev1 nc_ok False False (p_init, w_init)) = Returned True \<and>
   (\<forall>x. files (snd (snd (run_full_pipeline ev1 nc_ok False False (p_init, w_init)))) summary_path
          \<noteq> Some (Json x)) \<and>
   fst (main ev1 nc_ok w_init) = Returned True \<and>
   (\<forall>x. files (snd (snd (main ev1 nc_ok w_init))) summary_path \<noteq> Some (Json x)) \<and>
   ''  Summary JSON saved to: data/cleaned/'' \<in> set (stdout (snd (snd (main ev1 nc_ok w_init))))"
proof -
  let ?R = "run_full_pipeline ev1 nc_ok False False (p_init, w_init)"
  let ?M = "main ev1 nc_ok w_init"
  have r: "?R = (Returned True, fst (snd ?R), snd (snd ?R))"
    using example_full_run by (simp add: prod_eq_iff)
  have m: "?M = (Returned True, fst (snd ?M), snd (snd ?M))"
    using example_main by (simp add: prod_eq_iff)
  have e: "files w_init summary_path = None" by (simp add: w_init_def)
  from run_full_pipeline_writes_no_summary [THEN conjunct1, THEN mp, OF r] e
  have 1: "\<forall>x. files (snd (snd ?R)) summary_path \<noteq> Some (Json x)" by auto
  from run_full_pipeline_writes_no_summary [THEN conjunct2, THEN conjunct1, THEN mp, OF m] e
  have 2: "\<forall>x. files (snd (snd ?M)) summary_path \<noteq> Some (Json x)" by auto
  from run_full_pipeline_writes_no_summary [THEN conjunct2, THEN conjunct2, THEN mp, OF m]
  have 3: "''  Summary JSON saved to: data/cleaned/'' \<in> set (stdout (snd (snd ?M)))" .
  from 1 2 3 example_full_run example_main show ?thesis by simp
qed

lemmas psteps = bind_def ret_def lift_def logging_def get_results_def summary_if_def
  summary_of_def subscript_def

lemma generate_combined_summary_failed:
  assumes "(\<exists>e. results.commercial (results p) = Some (Failed e)) \<or>
           (\<exists>e. results.non_commercial (results p) = Some (Failed e))"
  shows "generate_combined_summary ev (p, w) =
           (Raised (KeyError ''summary''), p, info ''Generating combined summary statistics...'' [] w)"
  using assms unfolding generate_combined_summary_def
  by (auto simp: psteps split: option.splits result.splits)

lemma generate_combined_summary_both:
  assumes "results.commercial (results p) = Some (Succeeded f1 (Some s1))"
    "results.non_commercial (results p) = Some (Succeeded f2 (Some s2))"
  shows "generate_combined_summary ev (p, w) =
     (Returned
        \<lparr>pipeline_timestamp = isoformat ev,
         combined_summary.commercial = Some s1,
         combined_summary.non_commercial = Some s2,
         overall = Some
           \<lparr>total_records = summary.cleaned_row_count s1 + summary.cleaned_row_count s2,
            overall.total_exchange_value = summary.total_exchange_value s1 + summary.total_exchange_value s2,
            combined_date_range =
              \<lparr>min_year = min (min_year (date_range s1)) (min_year (date_range s2)),
               max_year = max (max_year (date_range s1)) (max_year (date_range s2))\<rparr>\<rparr>\<rparr>,
      p, info ''Generating combined summary statistics...'' [] w)"
  using assms unfolding generate_combined_summary_def
  by (simp add: psteps)

lemma generate_combined_summary_not_run:
  assumes "results.commercial (results p) = None \<or> results.non_commercial (results p) = None"
    "fst (generate_combined_summary ev (p, w)) = Returned cs"
  shows "overall cs = None"
  using assms unfolding generate_combined_summary_def
  by (auto simp: psteps split: option.splits result.splits)

lemma run_commercial_cleaning_False:
  assumes "run_commercial_cleaning ev ra rd (p, w) = (Returned False, p', w')"
  shows "results.commercial (results p') = Some (Failed ''Commercial data cleaning failed'')"
  using assms unfolding run_commercial_cleaning_def
  by (auto simp: bind_pair_Returned logging_eq ret_eq set_commercial_def split: if_splits prod.splits)

lemma run_noncommercial_cleaning_False:
  assumes "run_noncommercial_cleaning nc ra rd (p, w) = (Returned False, p', w')"
  shows "results.non_commercial (results p') = Some (Failed ''Non-commercial data cleaning failed'')"
  using assms unfolding run_noncommercial_cleaning_def
  by (auto simp: bind_pair_Returned logging_eq ret_eq set_non_commercial_def split: if_splits prod.splits)

text \<open>
  C3 fails on the code: after a cleaner has failed, its entry of \<^verbatim>\<open>self.results\<close> is the
  dictionary \<^verbatim>\<open>{'success': False, 'error': ...}\<close>, which is true as a condition and has no
  key \<^verbatim>\<open>summary\<close>; \<open>generate_combined_summary\<close> then raises \<^verbatim>\<open>KeyError\<close> instead of
  returning a summary with a null field.
\<close>

theorem combined_summary_raises_after_failure:
  "((\<exists>e. results.commercial (results p) = Some (Failed e)) \<or>
    (\<exists>e. results.non_commercial (results p) = Some (Failed e)) \<longrightarrow>
      fst (generate_combined_summary ev (p, w)) = Raised (KeyError ''summary'')) \<and>
   (run_commercial_cleaning ev ra rd (p, w) = (Returned False, p', w') \<longrightarrow>
      results.commercial (results p') = Some (Failed ''Commercial data cleaning failed'')) \<and>
   (run_noncommercial_cleaning nc ra rd (p, w) = (Returned False, p', w') \<longrightarrow>
      results.non_commercial (results p') = Some (Failed ''Non-commercial data cleaning failed''))"
  by (auto simp: generate_combined_summary_failed
        dest: run_commercial_cleaning_False run_noncommercial_cleaning_False)

lemma example_commercial_fails:
  "fst (run_commercial_cleaning ev_empty False False (p_init, w_init)) = Returned False"
  by code_simp

lemma example_noncommercial_fails:
  "fst (run_noncommercial_cleaning nc_failed False False (p_both, w_init)) = Returned False"
  by code_simp

theorem combined_summary_raises_after_failure_witness:
  "fst (run_commercial_cleaning ev_empty False False (p_init, w_init)) = Returned False \<and>
   results.commercial (results (fst (snd (run_commercial_cleaning ev_empty False False (p_init, w_init)))))
     = Some (Failed ''Commercial data cleaning failed'') \<and>
   fst (generate_combined_summary ev_empty (snd (run_commercial_cleaning ev_empty False False (p_init, w_init))))
     = Raised (KeyError ''summary'') \<and>
   fst (generate_combined_summary ev1 (snd (run_noncommercial_cleaning nc_failed False False (p_both, w_init))))
     = Raised (KeyError ''summary'')"
proof -
  let ?C = "run_commercial_cleaning ev_empty False False (p_init, w_init)"
  let ?N = "run_noncommercial_cleaning nc_failed False False (p_both, w_init)"
  have c: "?C = (Returned False, fst (snd ?C), snd (snd ?C))"
    using example_commercial_fails by (simp add: prod_eq_iff)
  have n: "?N = (Returned False, fst (snd ?N), snd (snd ?N))"
    using example_noncommercial_fails by (simp add: prod_eq_iff)
  from combined_summary_raises_after_failure [THEN conjunct2, THEN conjunct1, THEN mp, OF c]
  have 1: "results.commercial (results (fst (snd ?C))) = Some (Failed ''Commercial data cleaning failed'')" .
  from combined_summary_raises_after_failure [THEN conjunct2, THEN conjunct2, THEN mp, OF n]
  have 2: "results.non_commercial (results (fst (snd ?N))) = Some (Failed ''Non-commercial data cleaning failed'')" .
  from 1 have "(\<exists>e. results.commercial (results (fst (snd ?C))) = Some (Failed e)) \<or>
    (\<exists>e. results.non_commercial (results (fst (snd ?C))) = Some (Failed e))" by blast
  from combined_summary_raises_after_failure [THEN conjunct1, THEN mp, OF this, of ev_empty "snd (snd ?C)"]
  have 3: "fst (generate_combined_summary ev_empty (snd ?C)) = Raised (KeyError ''summary'')" by simp
  from 2 have "(\<exists>e. results.commercial (results (fst (snd ?N))) = Some (Failed e)) \<or>
    (\<exists>e. results.non_commercial (results (fst (snd ?N))) = Some (Failed e))" by blast
  from combined_summary_raises_after_failure [THEN conjunct1, THEN mp, OF this, of ev1 "snd (snd ?N)"]
  have 4: "fst (generate_combined_summary ev1 (snd ?N)) = Raised (KeyError ''summary'')" by simp
  from example_commercial_fails 1 3 4 show ?thesis by simp
qed

text \<open>
  C2 fails on the code, by the same defect as C3. When both cleaners succeeded the summary
  has the \<open>overall\<close> block and its \<open>total_records\<close> is the sum of the two
  \<open>cleaned_row_count\<close>s; when a cleaner has not been run the block is absent; but when a
  cleaner failed no summary is returned at all.
\<close>

theorem overall_block_of_combined_summary:
  "(results.commercial (results p) = Some (Succeeded f1 (Some s1)) \<and>
    results.non_commercial (results p) = Some (Succeeded f2 (Some s2)) \<longrightarrow>
      (\<exists>cs ov. fst (generate_combined_summary ev (p, w)) = Returned cs \<and> overall cs = Some ov \<and>
         total_records ov = summary.cleaned_row_count s1 + summary.cleaned_row_count s2)) \<and>
   ((results.commercial (results p) = None \<or> results.non_commercial (results p) = None) \<and>
    fst (generate_combined_summary ev (p, w)) = Returned cs \<longrightarrow> overall cs = None) \<and>
   ((\<exists>e. results.commercial (results p) = Some (Failed e)) \<or>
    (\<exists>e. results.non_commercial (results p) = Some (Failed e)) \<longrightarrow>
      (\<forall>cs. fst (generate_combined_summary ev (p, w)) \<noteq> Returned cs))"
proof (intro conjI impI)
  assume "results.commercial (results p) = Some (Succeeded f1 (Some s1)) \<and>
    results.non_commercial (results p) = Some (Succeeded f2 (Some s2))"
  then show "\<exists>cs ov. fst (generate_combined_summary ev (p, w)) = Returned cs \<and> overall cs = Some ov \<and>
         total_records ov = summary.cleaned_row_count s1 + summary.cleaned_row_count s2"
    by (simp add: generate_combined_summary_both)
next
  assume "(results.commercial (results p) = None \<or> results.non_commercial (results p) = None) \<and>
    fst (generate_combined_summary ev (p, w)) = Returned cs"
  then show "overall cs = None" using generate_combined_summary_not_run [of p ev w cs] by blast
next
  assume "(\<exists>e. results.commercial (results p) = Some (Failed e)) \<or>
    (\<exists>e. results.non_commercial (results p) = Some (Failed e))"
  then show "\<forall>cs. fst (generate_combined_summary ev (p, w)) \<noteq> Returned cs"
    by (simp add: generate_combined_summary_failed)
qed

lemma example_not_run:
  "fst (generate_combined_summary ev1 (p_init, w_init)) =
     Returned \<lparr>pipeline_timestamp = ''2024-01-01T12:00:00'', combined_summary.commercial = None,
       combined_summary.non_commercial = None, overall = None\<rparr>"
  by code_simp

lemma example_noncommercial_failed_entry:
  "results.non_commercial (results (fst (snd (run_noncommercial_cleaning nc_failed False False (p_both, w_init)))))
     = Some (Failed ''Non-commercial data cleaning failed'')"
  by code_simp

theorem overall_block_of_combined_summary_witness:
  "(\<exists>cs ov. fst (generate_combined_summary ev1 (p_both, w_init)) = Returned cs \<and>
      overall cs = Some ov \<and> total_records ov = 6) \<and>
   (\<exists>cs. fst (generate_combined_summary ev1 (p_init, w_init)) = Returned cs \<and> overall cs = None) \<and>
   (\<forall>cs. fst (generate_combined_summary ev1
            (fst (snd (run_noncommercial_cleaning nc_failed False False (p_both, w_init))), w_init))
          \<noteq> Returned cs)"
proof -
  have b: "results.commercial (results p_both) = Some (Succeeded out_path
        (Some \<lparr>summary.raw_row_count = 3, summary.cleaned_row_count = 2, rows_removed = 1,
          date_range = \<lparr>min_year = 1995, max_year = 1996\<rparr>, summary.total_exchange_value = 507,
          data_type = ''commercial'', processing_timestamp = ''2024-01-01T12:00:00'',
          unique_counties = [Str ''Hawaii'', Str ''Maui''],
          unique_species_groups = [Str ''All Species'', Str ''Pelagics''],
          unique_ecosystem_types = [Str ''All Ecosystems'', Str open_ocean],
          unique_area_ids = [100, 101], records_by_year = [(1995, 1), (1996, 1)],
          total_value_by_year = [(1995, 7), (1996, 500)]\<rparr>)) \<and>
      results.non_commercial (results p_both) =
        Some (Succeeded ''data/cleaned/cleaned_noncommercial_20240101.csv'' (Some noncommercial_example))"
    by (simp add: p_both_def)
  from overall_block_of_combined_summary [THEN conjunct1, THEN mp, OF b, of ev1 w_init]
  have 1: "\<exists>cs ov. fst (generate_combined_summary ev1 (p_both, w_init)) = Returned cs \<and>
      overall cs = Some ov \<and> total_records ov = 6"
    by (simp add: noncommercial_example_def)
  have "(results.commercial (results p_init) = None \<or> results.non_commercial (results p_init) = None) \<and>
    fst (generate_combined_summary ev1 (p_init, w_init)) =
      Returned \<lparr>pipeline_timestamp = ''2024-01-01T12:00:00'', combined_summary.commercial = None,
       combined_summary.non_commercial = None, overall = None\<rparr>"
    using example_not_run by (simp add: p_init_def FisheriesCleaningPipeline_def)
  from overall_block_of_combined_summary [THEN conjunct2, THEN conjunct1, THEN mp, OF this] example_not_run
  have 2: "\<exists>cs. fst (generate_combined_summary ev1 (p_init, w_init)) = Returned cs \<and> overall cs = None"
    by simp
  let ?P = "fst (snd (run_noncommercial_cleaning nc_failed False False (p_both, w_init)))"
  from example_noncommercial_failed_entry
  have "(\<exists>e. results.commercial (results ?P) = Some (Failed e)) \<or>
    (\<exists>e. results.non_commercial (results ?P) = Some (Failed e))" by blast
  from overall_block_of_combined_summary [THEN conjunct2, THEN conjunct2, THEN mp, OF this]
  have 3: "\<forall>cs. fst (generate_combined_summary ev1 (?P, w_init)) \<noteq> Returned cs" .
  from 1 2 3 show ?thesis by blast
qed

section \<open>Runs whose casts succeed\<close>

lemma files_closing [simp]: "files (closing c w) = files w"
  by (simp add: closing_def)

lemma logged_closing: "\<exists>recs. logged (closing c w) = logged w @ recs"
  by (simp add: closing_def)

lemma rows_assign_map:
  "rows (assign k (map f (column t k)) t) = map (\<lambda>r. set_cell k (f (cell_of r k)) r) (rows t)"
  by (simp add: assign_def column_def zip_map2 zip_same_conv_map o_def)

lemma rows_typed: "rows (typed ev t) = map (typed_row ev) (rows t)"
  by (simp add: typed_def typed_row_def Let_def rows_assign_map o_def)

lemma cell_of_typed_row:
  "cell_of (typed_row ev r) k =
     (if k \<in> {''year'', ''area_id'', ''exchange_value''} then to_numeric ev (cell_of r k)
      else cell_of r k)"
  by (simp add: typed_row_def Let_def cell_of_set_cell)

lemma is_aggregate_typed_row: "is_aggregate (typed_row ev r) = is_aggregate r"
  by (simp add: is_aggregate_def cell_of_typed_row)

lemma has_value_typed_row:
  "has_value (typed_row ev r) \<longleftrightarrow> to_numeric ev (cell_of r ''exchange_value'') \<noteq> Null"
  by (simp add: has_value_def notna_def cell_of_typed_row)



lemma run_through_export:
  assumes l: "load_data ev (c, start w) = (Returned True, c1, w1)"
    and d: "data c1 = Some t0"
    and v: "validate_schema (c1, w1) = (Returned True, c2, w2)"
    and cast: "castable ev t0"
  obtains w3 w4 w5 w6 w7 w8 w9 w10 w11 where
    "c2 = c1"
    "validate_data_types ev (c2, w2) = (Returned (), c1\<lparr>data := Some (typed ev t0)\<rparr>, w3)"
    "validate_data_ranges (c1\<lparr>data := Some (typed ev t0)\<rparr>, w3) =
       (Returned True, c1\<lparr>data := Some (typed ev t0)\<rparr>, w4)"
    "validate_ecosystem_types (c1\<lparr>data := Some (typed ev t0)\<rparr>, w4) =
       (Returned (), c1\<lparr>data := Some (typed ev t0)\<rparr>, w5)"
    "validate_species_groups (c1\<lparr>data := Some (typed ev t0)\<rparr>, w5) =
       (Returned (), c1\<lparr>data := Some (typed ev t0)\<rparr>, w6)"
    "validate_counties (c1\<lparr>data := Some (typed ev t0)\<rparr>, w6) =
       (Returned (), c1\<lparr>data := Some (typed ev t0)\<rparr>, w7)"
    "remove_null_values (c1\<lparr>data := Some (typed ev t0)\<rparr>, w7) =
       (Returned (), c1\<lparr>data := Some (select has_value (typed ev t0))\<rparr>, w8)"
    "remove_aggregate_rows ra (c1\<lparr>data := Some (select has_value (typed ev t0))\<rparr>, w8) =
       (Returned (), c1\<lparr>data := Some (cleaned ev ra False t0)\<rparr>, w9)"
    "remove_display_columns rd (c1\<lparr>data := Some (cleaned ev ra False t0)\<rparr>, w9) =
       (Returned (), c1\<lparr>data := Some (cleaned ev ra rd t0)\<rparr>, w10)"
    "export_cleaned_data ev (c1\<lparr>data := Some (cleaned ev ra rd t0)\<rparr>, w10) =
       (Returned (cleaned_path ev c),
        c1\<lparr>data := Some (cleaned ev ra rd t0),
           cleaner.cleaned_row_count := length (rows (cleaned ev ra rd t0))\<rparr>, w11)"
    "files w11 = (files w)(cleaned_path ev c \<mapsto> Csv (cleaned ev ra rd t0))"
    "run_cleaning_pipeline ev ra rd (c, w) =
       (case generate_summary_statistics ev
               (c1\<lparr>data := Some (cleaned ev ra rd t0),
                   cleaner.cleaned_row_count := length (rows (cleaned ev ra rd t0))\<rparr>, w11) of
          (Raised e, s) \<Rightarrow> (Raised e, s)
        | (Returned s, c12, w12) \<Rightarrow>
            (Returned (True, Some (cleaned_path ev c), Some s), c12, closing c12 w12))"
proof -
  let ?T1 = "typed ev t0"
  let ?T2 = "select has_value ?T1"
  let ?T3 = "cleaned ev ra False t0"
  let ?T = "cleaned ev ra rd t0"
  have T3: "?T3 = (if ra then select (\<lambda>r. \<not> is_aggregate r) ?T2 else ?T2)"
    by (simp add: cleaned_def Let_def)
  have T: "?T = (if rd then without_display ?T3 else ?T3)" by (simp add: cleaned_def Let_def)
  from unchangedD [OF validate_schema_unchanged v] have c2: "c2 = c1" and f2: "files w2 = files w1"
    by auto
  from validate_schema_True [OF v] d have cols: "set required_columns \<subseteq> set (columns t0)" by simp
  have wt1: "well_typed ?T1" using cols by (rule well_typed_typed)
  then have wt2: "well_typed ?T2" by (rule well_typed_select)
  have req: "k \<in> set (columns t')" if "well_typed t'" "k \<in> set required_columns" for t' k
    using that by (auto simp: well_typed_def)
  note mem = required_columns_def
  from load_data_result [OF l] have f1: "files w1 = files w"
    and od: "cleaner.output_dir c1 = cleaner.output_dir c" by auto
  let ?c3 = "c1\<lparr>data := Some ?T1\<rparr>"
  from validate_data_types_returns [OF d cols cast, of w2] obtain w3
    where ty: "validate_data_types ev (c1, w2) = (Returned (), ?c3, w3)" by auto
  have d3: "data ?c3 = Some ?T1" by simp
  from validate_data_ranges_returns [OF d3 wt1, of w3] obtain w4
    where rg: "validate_data_ranges (?c3, w3) = (Returned True, ?c3, w4)" by auto
  from validate_ecosystem_types_returns [OF d3, of w4] req [OF wt1] obtain w5
    where ec: "validate_ecosystem_types (?c3, w4) = (Returned (), ?c3, w5)" by (auto simp: mem)
  from validate_species_groups_returns [OF d3, of w5] req [OF wt1] obtain w6
    where sp: "validate_species_groups (?c3, w5) = (Returned (), ?c3, w6)" by (auto simp: mem)
  from validate_counties_returns [OF d3, of w6] req [OF wt1] obtain w7
    where co: "validate_counties (?c3, w6) = (Returned (), ?c3, w7)" by (auto simp: mem)
  let ?c8 = "c1\<lparr>data := Some ?T2\<rparr>"
  from remove_null_values_returns [OF d3, of w7] req [OF wt1] obtain w8
    where nu: "remove_null_values (?c3, w7) = (Returned (), ?c8, w8)" by (auto simp: mem)
  have d8: "data ?c8 = Some ?T2" by simp
  let ?c9 = "c1\<lparr>data := Some ?T3\<rparr>"
  from remove_aggregate_rows_returns [OF d8, of ra w8] req [OF wt2] obtain w9
    where ag: "remove_aggregate_rows ra (?c8, w8) = (Returned (), ?c9, w9)" by (auto simp: mem T3)
  have d9: "data ?c9 = Some ?T3" by simp
  let ?c10 = "c1\<lparr>data := Some ?T\<rparr>"
  from remove_display_columns_returns [OF d9, of rd w9] obtain w10
    where di: "remove_display_columns rd (?c9, w9) = (Returned (), ?c10, w10)" by (auto simp: T)
  have d10: "data ?c10 = Some ?T" by simp
  let ?c11 = "c1\<lparr>data := Some ?T, cleaner.cleaned_row_count := length (rows ?T)\<rparr>"
  have p: "cleaned_path ev ?c10 = cleaned_path ev c" using od by (simp add: cleaned_path_def)
  from export_cleaned_data_returns [OF d10, of ev w10] p obtain w11
    where ex: "export_cleaned_data ev (?c10, w10) = (Returned (cleaned_path ev c), ?c11, w11)"
      and f11: "files w11 = (files w10)(cleaned_path ev c \<mapsto> Csv ?T)" by auto
  obtain o12 c12 w12 where su: "generate_summary_statistics ev (?c11, w11) = (o12, c12, w12)"
    by (cases "generate_summary_statistics ev (?c11, w11)") auto
  have run: "run_cleaning_pipeline ev ra rd (c, w) =
       (case generate_summary_statistics ev (?c11, w11) of
          (Raised e, s) \<Rightarrow> (Raised e, s)
        | (Returned s, c12, w12) \<Rightarrow>
            (Returned (True, Some (cleaned_path ev c), Some s), c12, closing c12 w12))"
  proof (cases o12)
    case (Returned s)
    show ?thesis
      unfolding run_cleaning_pipeline_def
      by (simp add: bind_def logging_def ret_def get_self_def closing_def
            l [unfolded start_def] v [unfolded c2] ty rg ec sp co nu ag di ex su Returned)
  next
    case (Raised e)
    show ?thesis
      unfolding run_cleaning_pipeline_def
      by (simp add: bind_def logging_def ret_def get_self_def
            l [unfolded start_def] v [unfolded c2] ty rg ec sp co nu ag di ex su Raised)
  qed
  have F: "files w11 = (files w)(cleaned_path ev c \<mapsto> Csv ?T)"
    using f11 f1 f2
      same_filesD [OF validate_data_types_same_files ty]
      unchangedD [OF validate_data_ranges_unchanged rg]
      unchangedD [OF validate_ecosystem_types_unchanged ec]
      unchangedD [OF validate_species_groups_unchanged sp]
      unchangedD [OF validate_counties_unchanged co]
      same_filesD [OF remove_null_values_same_files nu]
      same_filesD [OF remove_aggregate_rows_same_files ag]
      same_filesD [OF remove_display_columns_same_files di]
    by simp
  have ty2: "validate_data_types ev (c2, w2) = (Returned (), ?c3, w3)" using ty c2 by simp
  from that [OF c2 ty2 rg ec sp co nu ag di ex F run] show ?thesis .
qed

lemma run_after_casts:
  assumes l: "load_data ev (c, start w) = (Returned True, c1, w1)"
    and d: "data c1 = Some t0"
    and v: "validate_schema (c1, w1) = (Returned True, c2, w2)"
    and cast: "castable ev t0"
  shows "\<exists>out c' w'. run_cleaning_pipeline ev ra rd (c, w) = (out, c', w') \<and>
           (\<forall>fo so. out \<noteq> Returned (False, fo, so)) \<and>
           files w' = (files w)(cleaned_path ev c \<mapsto> Csv (cleaned ev ra rd t0)) \<and>
           (list_ex out_of_range (column (typed ev t0) ''year'') \<longrightarrow>
              out_of_range_warning (typed ev t0) \<in> set (logged w'))"
proof -
  let ?c3 = "c1\<lparr>data := Some (typed ev t0)\<rparr>"
  let ?c11 = "c1\<lparr>data := Some (cleaned ev ra rd t0),
                 cleaner.cleaned_row_count := length (rows (cleaned ev ra rd t0))\<rparr>"
  from l d v cast obtain w3 w4 w5 w6 w7 w8 w9 w10 w11 where
    rg: "validate_data_ranges (?c3, w3) = (Returned True, ?c3, w4)" and
    ec: "validate_ecosystem_types (?c3, w4) = (Returned (), ?c3, w5)" and
    sp: "validate_species_groups (?c3, w5) = (Returned (), ?c3, w6)" and
    co: "validate_counties (?c3, w6) = (Returned (), ?c3, w7)" and
    nu: "remove_null_values (?c3, w7) =
           (Returned (), c1\<lparr>data := Some (select has_value (typed ev t0))\<rparr>, w8)" and
    ag: "remove_aggregate_rows ra (c1\<lparr>data := Some (select has_value (typed ev t0))\<rparr>, w8) =
           (Returned (), c1\<lparr>data := Some (cleaned ev ra False t0)\<rparr>, w9)" and
    di: "remove_display_columns rd (c1\<lparr>data := Some (cleaned ev ra False t0)\<rparr>, w9) =
           (Returned (), c1\<lparr>data := Some (cleaned ev ra rd t0)\<rparr>, w10)" and
    ex: "export_cleaned_data ev (c1\<lparr>data := Some (cleaned ev ra rd t0)\<rparr>, w10) =
           (Returned (cleaned_path ev c), ?c11, w11)" and
    F: "files w11 = (files w)(cleaned_path ev c \<mapsto> Csv (cleaned ev ra rd t0))" and
    run: "run_cleaning_pipeline ev ra rd (c, w) =
       (case generate_summary_statistics ev (?c11, w11) of
          (Raised e, s) \<Rightarrow> (Raised e, s)
        | (Returned s, c12, w12) \<Rightarrow>
            (Returned (True, Some (cleaned_path ev c), Some s), c12, closing c12 w12))"
    by (rule run_through_export)
  obtain o12 c12 w12 where su: "generate_summary_statistics ev (?c11, w11) = (o12, c12, w12)"
    by (cases "generate_summary_statistics ev (?c11, w11)") auto
  from unchangedD [OF generate_summary_statistics_unchanged su]
  have f12: "files w12 = files w11" by simp
  from validate_ecosystem_types_opens [OF ec] have g5: "set (logged w4) \<subseteq> set (logged w5)" by auto
  from validate_species_groups_opens [OF sp] have g6: "set (logged w5) \<subseteq> set (logged w6)" by auto
  from validate_counties_opens [OF co] have g7: "set (logged w6) \<subseteq> set (logged w7)" by auto
  from remove_null_values_opens [OF nu] have g8: "set (logged w7) \<subseteq> set (logged w8)" by auto
  from remove_aggregate_rows_opens [OF ag] have g9: "set (logged w8) \<subseteq> set (logged w9)" by auto
  from remove_display_columns_opens [OF di] have g10: "set (logged w9) \<subseteq> set (logged w10)" by auto
  from export_cleaned_data_opens [OF ex] have g11: "set (logged w10) \<subseteq> set (logged w11)" by auto
  from generate_summary_statistics_opens [OF su] have g12: "set (logged w11) \<subseteq> set (logged w12)" by auto
  from logged_closing [of c12 w12] have g13: "set (logged w12) \<subseteq> set (logged (closing c12 w12))"
    by auto
  have logs: "set (logged w4) \<subseteq> set (logged w12)"
    using g5 g6 g7 g8 g9 g10 g11 g12 by (meson subset_trans)
  have d3: "data ?c3 = Some (typed ev t0)" by simp
  have W: "list_ex out_of_range (column (typed ev t0) ''year'') \<longrightarrow>
        out_of_range_warning (typed ev t0) \<in> set (logged w12)"
    using validate_data_ranges_warns [OF rg d3] logs by blast
  show ?thesis
  proof (cases o12)
    case (Returned s)
    with run su have r: "run_cleaning_pipeline ev ra rd (c, w) =
        (Returned (True, Some (cleaned_path ev c), Some s), c12, closing c12 w12)" by simp
    show ?thesis
      apply (rule exI [of _ "Returned (True, Some (cleaned_path ev c), Some s)"])
      apply (rule exI [of _ c12])
      apply (rule exI [of _ "closing c12 w12"])
      using r F f12 W g13 by auto
  next
    case (Raised e)
    with run su have r: "run_cleaning_pipeline ev ra rd (c, w) = (Raised e, c12, w12)" by simp
    show ?thesis
      apply (rule exI [of _ "Raised e"])
      apply (rule exI [of _ c12])
      apply (rule exI [of _ w12])
      using r F f12 W by auto
  qed
qed

lemma cleaned_keeps_input_row:
  assumes "r \<in> set (rows t0)" "to_numeric ev (cell_of r ''exchange_value'') \<noteq> Null"
    "ra \<longrightarrow> \<not> is_aggregate r"
  shows "\<exists>r' \<in> set (rows (cleaned ev ra rd t0)).
           (\<not> rd \<longrightarrow> r' = typed_row ev r) \<and>
           (\<forall>k. k \<notin> set display_columns \<longrightarrow> cell_of r' k = cell_of (typed_row ev r) k)"
proof -
  from assms(1) have "typed_row ev r \<in> set (rows (typed ev t0))" by (simp add: rows_typed)
  moreover from assms(2) have "has_value (typed_row ev r)" by (simp add: has_value_typed_row)
  moreover from assms(3) have "ra \<longrightarrow> \<not> is_aggregate (typed_row ev r)"
    by (simp add: is_aggregate_typed_row)
  ultimately show ?thesis by (rule cleaned_keeps_row)
qed

lemma out_of_range_input_row:
  assumes "r \<in> set (rows t0)" "out_of_range (to_numeric ev (cell_of r ''year''))"
  shows "list_ex out_of_range (column (typed ev t0) ''year'')"
  using assms by (auto simp: column_def list_ex_iff rows_typed cell_of_typed_row)











lemma example_data: "data (fst (snd (load_data ev1 (c_init, start w_init)))) = Some raw_table"
  by code_simp

lemma example_castable: "castable ev1 raw_table"
  by code_simp

lemma example_cleaned_path: "cleaned_path ev1 c_init = out_path"
  by code_simp


lemma validate_data_ranges_levels:
  "validate_data_ranges (c, w) = (out, c', w') \<Longrightarrow>
     \<exists>recs. logged w' = logged w @ (INFO, ''Validating data ranges...'', []) # recs \<and>
       (\<forall>rec \<in> set recs. fst rec \<noteq> ERROR)"
  unfolding validate_data_ranges_def Let_def
  by (auto simp: steps split: option.splits if_splits)

text \<open>
  C9: \<open>validate_data_ranges\<close> is advisory. Any call, whatever its outcome, leaves the
  cleaner (hence its table) and the files as they were and only adds records to the log,
  none of them an error; it never returns \<open>False\<close>, and on a table that passed type
  validation it returns \<open>True\<close>. In the pipeline the stage is reached whenever the data
  was loaded, has the required columns and passes the casts of \<open>validate_data_types\<close>.
  The run then never returns the failure triple and writes the cleaned file, and every row
  that was read with an \<open>exchange_value\<close> that is a number, and that the aggregate filter
  does not drop, is in that file whatever its year and the sign of its value: with its
  numeric cells converted, and without its display cells when those are removed. When its
  year is outside 1997-2021, the warning that lists the years out of range is in the log.
  Nothing here assumes that the run returns.
\<close>

theorem range_validation_is_advisory:
  "(validate_data_ranges (c0, w0) = (out, c1, w1) \<longrightarrow>
      c1 = c0 \<and> files w1 = files w0 \<and> out \<noteq> Returned False \<and>
      (\<exists>recs. logged w1 = logged w0 @ (INFO, ''Validating data ranges...'', []) # recs \<and>
         (\<forall>rec \<in> set recs. fst rec \<noteq> ERROR))) \<and>
   (data c0 = Some t \<and> well_typed t \<longrightarrow> fst (validate_data_ranges (c0, w0)) = Returned True) \<and>
   (load_data ev (c, start w) = (Returned True, c2, w2) \<and> data c2 = Some t0 \<and>
    set required_columns \<subseteq> set (columns t0) \<and> castable ev t0 \<longrightarrow>
      (\<exists>res c' w'. run_cleaning_pipeline ev ra rd (c, w) = (res, c', w') \<and>
         (\<forall>fo so. res \<noteq> Returned (False, fo, so)) \<and>
         files w' (cleaned_path ev c) = Some (Csv (cleaned ev ra rd t0)) \<and>
         (\<forall>r \<in> set (rows t0).
            to_numeric ev (cell_of r ''exchange_value'') \<noteq> Null \<and> (ra \<longrightarrow> \<not> is_aggregate r) \<longrightarrow>
              (\<exists>r' \<in> set (rows (cleaned ev ra rd t0)).
                 (\<not> rd \<longrightarrow> r' = typed_row ev r) \<and>
                 (\<forall>k. k \<notin> set display_columns \<longrightarrow> cell_of r' k = cell_of (typed_row ev r) k)) \<and>
              (out_of_range (to_numeric ev (cell_of r ''year'')) \<longrightarrow>
                 out_of_range_warning (typed ev t0) \<in> set (logged w')))))"
proof (intro conjI impI)
  assume a: "validate_data_ranges (c0, w0) = (out, c1, w1)"
  from unchangedD [OF validate_data_ranges_unchanged a]
  show "c1 = c0" "files w1 = files w0" by auto
  from a show "out \<noteq> Returned False" by (auto dest: validate_data_ranges_True)
  from a show "\<exists>recs. logged w1 = logged w0 @ (INFO, ''Validating data ranges...'', []) # recs \<and>
         (\<forall>rec \<in> set recs. fst rec \<noteq> ERROR)"
    by (rule validate_data_ranges_levels)
next
  assume "data c0 = Some t \<and> well_typed t"
  with validate_data_ranges_returns [of c0 t w0]
  show "fst (validate_data_ranges (c0, w0)) = Returned True" by auto
next
  assume a: "load_data ev (c, start w) = (Returned True, c2, w2) \<and> data c2 = Some t0 \<and>
    set required_columns \<subseteq> set (columns t0) \<and> castable ev t0"
  then have l: "load_data ev (c, start w) = (Returned True, c2, w2)" and d: "data c2 = Some t0"
    and cols: "set required_columns \<subseteq> set (columns t0)" and cast: "castable ev t0"
    by simp_all
  from validate_schema_returns [OF d, of w2] cols obtain w3
    where v: "validate_schema (c2, w2) = (Returned True, c2, w3)" by auto
  from run_after_casts [OF l d v cast, of ra rd] obtain res c' w' where
    run: "run_cleaning_pipeline ev ra rd (c, w) = (res, c', w')" and
    nf: "\<forall>fo so. res \<noteq> Returned (False, fo, so)" and
    F: "files w' = (files w)(cleaned_path ev c \<mapsto> Csv (cleaned ev ra rd t0))" and
    W: "list_ex out_of_range (column (typed ev t0) ''year'') \<longrightarrow>
          out_of_range_warning (typed ev t0) \<in> set (logged w')"
    by (elim exE conjE)
  have K: "\<forall>r \<in> set (rows t0).
            to_numeric ev (cell_of r ''exchange_value'') \<noteq> Null \<and> (ra \<longrightarrow> \<not> is_aggregate r) \<longrightarrow>
              (\<exists>r' \<in> set (rows (cleaned ev ra rd t0)).
                 (\<not> rd \<longrightarrow> r' = typed_row ev r) \<and>
                 (\<forall>k. k \<notin> set display_columns \<longrightarrow> cell_of r' k = cell_of (typed_row ev r) k)) \<and>
              (out_of_range (to_numeric ev (cell_of r ''year'')) \<longrightarrow>
                 out_of_range_warning (typed ev t0) \<in> set (logged w'))"
  proof (intro ballI impI conjI)
    fix r
    assume r: "r \<in> set (rows t0)"
      and h: "to_numeric ev (cell_of r ''exchange_value'') \<noteq> Null \<and> (ra \<longrightarrow> \<not> is_aggregate r)"
    from h have h1: "to_numeric ev (cell_of r ''exchange_value'') \<noteq> Null"
      and h2: "ra \<longrightarrow> \<not> is_aggregate r" by simp_all
    from r h1 h2 show "\<exists>r' \<in> set (rows (cleaned ev ra rd t0)).
                 (\<not> rd \<longrightarrow> r' = typed_row ev r) \<and>
                 (\<forall>k. k \<notin> set display_columns \<longrightarrow> cell_of r' k = cell_of (typed_row ev r) k)"
      by (rule cleaned_keeps_input_row)
    assume "out_of_range (to_numeric ev (cell_of r ''year''))"
    with r have "list_ex out_of_range (column (typed ev t0) ''year'')"
      by (rule out_of_range_input_row)
    with W show "out_of_range_warning (typed ev t0) \<in> set (logged w')" by simp
  qed
  have F': "files w' (cleaned_path ev c) = Some (Csv (cleaned ev ra rd t0))" using F by simp
  show "\<exists>res c' w'. run_cleaning_pipeline ev ra rd (c, w) = (res, c', w') \<and>
         (\<forall>fo so. res \<noteq> Returned (False, fo, so)) \<and>
         files w' (cleaned_path ev c) = Some (Csv (cleaned ev ra rd t0)) \<and>
         (\<forall>r \<in> set (rows t0).
            to_numeric ev (cell_of r ''exchange_value'') \<noteq> Null \<and> (ra \<longrightarrow> \<not> is_aggregate r) \<longrightarrow>
              (\<exists>r' \<in> set (rows (cleaned ev ra rd t0)).
                 (\<not> rd \<longrightarrow> r' = typed_row ev r) \<and>
                 (\<forall>k. k \<notin> set display_columns \<longrightarrow> cell_of r' k = cell_of (typed_row ev r) k)) \<and>
              (out_of_range (to_numeric ev (cell_of r ''year'')) \<longrightarrow>
                 out_of_range_warning (typed ev t0) \<in> set (logged w')))"
    using run nf F' K by (intro exI conjI)
qed

lemma example_well_typed: "well_typed (typed ev1 raw_table)"
  by code_simp

lemma example_row_1996:
  "to_numeric ev1 (cell_of row_1996 ''exchange_value'') = Num 500 \<and>
   to_numeric ev1 (cell_of row_1996 ''year'') = Num 1996 \<and>
   cell_of row_1996 ''species_group'' = Str ''Pelagics'' \<and>
   cell_of row_1996 ''ecosystem_type'' = Str open_ocean \<and>
   \<not> is_aggregate row_1996 \<and> out_of_range (Num 1996) \<and> typed_row ev1 row_1996 = row_1996"
  by code_simp

theorem range_validation_is_advisory_witness:
  "fst (snd (validate_data_ranges (c_typed, w_init))) = c_typed \<and>
   fst (validate_data_ranges (c_typed, w_init)) = Returned True \<and>
   files (snd (snd (run_cleaning_pipeline ev1 True False (c_init, w_init)))) out_path =
     Some (Csv (cleaned ev1 True False raw_table)) \<and>
   row_1996 \<in> set (rows (cleaned ev1 True False raw_table)) \<and>
   out_of_range_warning (typed ev1 raw_table) \<in>
     set (logged (snd (snd (run_cleaning_pipeline ev1 True False (c_init, w_init)))))"
proof -
  let ?V = "validate_data_ranges (c_typed, w_init)"
  have "?V = (fst ?V, fst (snd ?V), snd (snd ?V))" by simp
  from range_validation_is_advisory [THEN conjunct1, THEN mp, OF this]
  have 1: "fst (snd ?V) = c_typed" by simp
  have "data c_typed = Some (typed ev1 raw_table) \<and> well_typed (typed ev1 raw_table)"
    using example_well_typed by (simp add: c_typed_def)
  from range_validation_is_advisory [THEN conjunct2, THEN conjunct1, THEN mp, OF this]
  have 2: "fst ?V = Returned True" .
  let ?M = "load_data ev1 (c_init, start w_init)"
  have l1: "?M = (Returned True, fst (snd ?M), snd (snd ?M))"
    using example_load by (simp add: prod_eq_iff)
  have "load_data ev1 (c_init, start w_init) = (Returned True, fst (snd ?M), snd (snd ?M)) \<and>
    data (fst (snd ?M)) = Some raw_table \<and> set required_columns \<subseteq> set (columns raw_table) \<and>
    castable ev1 raw_table"
    using l1 example_data example_schema_loaded example_castable by simp
  from range_validation_is_advisory [THEN conjunct2, THEN conjunct2, THEN mp, OF this, of True False]
  obtain res c' w' where
    run: "run_cleaning_pipeline ev1 True False (c_init, w_init) = (res, c', w')" and
    F: "files w' (cleaned_path ev1 c_init) = Some (Csv (cleaned ev1 True False raw_table))" and
    K: "\<forall>r \<in> set (rows raw_table).
            to_numeric ev1 (cell_of r ''exchange_value'') \<noteq> Null \<and> (True \<longrightarrow> \<not> is_aggregate r) \<longrightarrow>
              (\<exists>r' \<in> set (rows (cleaned ev1 True False raw_table)).
                 (\<not> False \<longrightarrow> r' = typed_row ev1 r) \<and>
                 (\<forall>k. k \<notin> set display_columns \<longrightarrow> cell_of r' k = cell_of (typed_row ev1 r) k)) \<and>
              (out_of_range (to_numeric ev1 (cell_of r ''year'')) \<longrightarrow>
                 out_of_range_warning (typed ev1 raw_table) \<in> set (logged w'))"
    by (elim exE conjE)
  have m: "row_1996 \<in> set (rows raw_table)" by (simp add: raw_table_def)
  from K [rule_format, OF m] example_row_1996
  have 3: "row_1996 \<in> set (rows (cleaned ev1 True False raw_table))"
    and 4: "out_of_range_warning (typed ev1 raw_table) \<in> set (logged w')"
    by auto
  from 1 2 3 4 F run example_cleaned_path show ?thesis by simp
qed

end
